theory Spec2Isabelle
  imports Complex_Main
begin

section \<open>Campaign aggregate and content generation of the marketing backend\<close>

text \<open>
  The development embeds the Mongoose models \<^verbatim>\<open>models/Campaign.js\<close> and
  \<^verbatim>\<open>models/Persona.js\<close>, the service \<^verbatim>\<open>services/aiService.js\<close> and the controllers
  \<^verbatim>\<open>controllers/campaignController.js\<close> and \<^verbatim>\<open>controllers/contentController.js\<close>.

  Conventions. An ObjectId is the string \<^verbatim>\<open>toString()\<close> yields, so that the source's
  \<^verbatim>\<open>a.toString() === b.toString()\<close> is equality. A String field with an \<^verbatim>\<open>enum\<close> stays a
  string and the enumeration is a list, because a request can carry any string. A field that
  may be \<^verbatim>\<open>undefined\<close> is an option. A JavaScript exception is a value of \<open>js_error\<close>.
  A controller is a function from the request and the world (the two collections and a
  trace of the lookups and generation calls made) to the response and the new world.
\<close>

subsection \<open>Strings\<close>

text \<open>
  A character stands for a code unit below 256. \<open>is_space\<close> is the white space and line
  terminator set of \<^verbatim>\<open>String.prototype.trim\<close>, of \<^verbatim>\<open>\s\<close> and of \<^verbatim>\<open>parseInt\<close>
  in that range: tab, line feed, vertical tab, form feed, carriage return, space and
  no-break space.
\<close>

definition is_space :: "char \<Rightarrow> bool" where
  "is_space c =
     (c \<in> set [CHR 0x09, CHR 0x0A, CHR 0x0B, CHR 0x0C, CHR 0x0D, CHR 0x20, CHR 0xA0])"

definition is_hex :: "char \<Rightarrow> bool" where
  "is_hex c = (let n = (of_char c :: nat) in
     (48 \<le> n \<and> n \<le> 57) \<or> (65 \<le> n \<and> n \<le> 70) \<or> (97 \<le> n \<and> n \<le> 102))"

definition isMongoId :: "string \<Rightarrow> bool" where
  \<comment> \<open>the validator of the routes: 24 hexadecimal digits\<close>
  "isMongoId s = (length s = 24 \<and> list_all is_hex s)"

definition is_word :: "char \<Rightarrow> bool" where
  \<comment> \<open>the regular expression class \<^verbatim>\<open>\w\<close>\<close>
  "is_word c = (let n = (of_char c :: nat) in
     (48 \<le> n \<and> n \<le> 57) \<or> (65 \<le> n \<and> n \<le> 90) \<or> (97 \<le> n \<and> n \<le> 122) \<or> n = 95)"

definition trim :: "string \<Rightarrow> string" where
  "trim s = rev (dropWhile is_space (rev (dropWhile is_space s)))"

definition startsWith :: "string \<Rightarrow> string \<Rightarrow> bool" where
  "startsWith v p = (take (length p) v = p)"

subsection \<open>Data model\<close>

text \<open>
  Of each schema the fields are carried that the controllers, the instance methods, the
  validators of embedded content and the campaign routes read or write; description,
  budget, currency, tone, keywords and the A/B tests are not. A date is its time value in
  milliseconds. Numbers of the metrics are kept abstract in the record; a stored campaign
  holds rationals.
\<close>

type_synonym objectId = string

datatype js_error = Error string | ValidationError | TypeError

record content =
  contentType :: string
  platform :: "string option"
  subjectLine :: "string option"
  contentBody :: string
  hashtags :: "string list"
  qualityScore :: int

record 'n metrics =
  totalReach :: 'n
  totalImpressions :: 'n
  totalClicks :: 'n
  totalConversions :: 'n
  totalSpent :: 'n
  ctr :: 'n
  cpc :: 'n
  cpa :: 'n
  roi :: 'n

record generationSettings =
  gs_platforms :: "string list"
  gs_customInstructions :: "string option"

record collaborator =
  collab_userId :: "objectId option"
  collab_role :: string

record campaign =
  userId :: objectId
  personaId :: objectId
  name :: string
  objective :: string
  status :: string
  startDate :: int
  endDate :: int
  content :: "content list"
  metrics :: "rat metrics"
  generationSettings :: generationSettings
  collaborators :: "collaborator list"
  isArchived :: bool

record persona =
  p_userId :: "objectId option"
  isPredefined :: bool

definition contentType_enum :: "string list" where
  "contentType_enum = [''email'', ''social_post'', ''ad_copy'', ''blog_post'']"

definition platform_enum :: "string list" where
  "platform_enum =
     [''email'', ''linkedin'', ''facebook'', ''twitter'', ''instagram'', ''youtube'', ''tiktok'']"

definition objective_enum :: "string list" where
  "objective_enum = [''awareness'', ''engagement'', ''conversion'', ''retention'', ''lead_generation'']"

definition status_enum :: "string list" where
  "status_enum = [''draft'', ''generating'', ''active'', ''paused'', ''completed'', ''archived'']"

definition role_enum :: "string list" where
  "role_enum = [''viewer'', ''editor'', ''admin'']"

subsection \<open>Instance methods of the models\<close>

definition isOwnedBy :: "campaign \<Rightarrow> objectId \<Rightarrow> bool" where
  "isOwnedBy c uid = (userId c = uid)"

text \<open>
  \<^verbatim>\<open>this.collaborators.find((c) => c.userId.toString() === userId.toString())\<close>: the first
  entry whose user is the actor. An entry without a user reference met before that one makes
  \<^verbatim>\<open>c.userId.toString()\<close> throw a TypeError.
\<close>

fun find_collaborator :: "collaborator list \<Rightarrow> objectId \<Rightarrow> js_error + collaborator option" where
  "find_collaborator [] uid = Inr None"
| "find_collaborator (c # cs) uid =
     (case collab_userId c of
        None \<Rightarrow> Inl TypeError
      | Some v \<Rightarrow> if v = uid then Inr (Some c) else find_collaborator cs uid)"

definition canBeEditedBy :: "campaign \<Rightarrow> objectId \<Rightarrow> js_error + bool" where
  \<comment> \<open>the result is read for truthiness only, so \<^verbatim>\<open>undefined\<close> is \<open>False\<close>\<close>
  "canBeEditedBy c uid =
     (if isOwnedBy c uid then Inr True
      else case find_collaborator (collaborators c) uid of
             Inl e \<Rightarrow> Inl e
           | Inr None \<Rightarrow> Inr False
           | Inr (Some collaborator) \<Rightarrow>
               Inr (collab_role collaborator \<in> set [''editor'', ''admin'']))"

definition persona_isOwnedBy :: "persona \<Rightarrow> objectId \<Rightarrow> bool" where
  "persona_isOwnedBy p uid = (case p_userId p of None \<Rightarrow> False | Some v \<Rightarrow> v = uid)"

definition persona_canBeEditedBy :: "persona \<Rightarrow> objectId \<Rightarrow> bool" where
  "persona_canBeEditedBy p uid = (if isPredefined p then False else persona_isOwnedBy p uid)"

text \<open>
  The persona check of the campaign controller,
  \<^verbatim>\<open>!persona.isPredefined && persona.userId && persona.userId.toString() !== userId.toString()\<close>,
  and that of the content controller,
  \<^verbatim>\<open>!persona.isPredefined && persona.userId && !persona.isOwnedBy(userId)\<close>. When the
  condition holds the controller answers 403.
\<close>

definition campaign_persona_denied :: "persona \<Rightarrow> objectId \<Rightarrow> bool" where
  "campaign_persona_denied p uid =
     (\<not> isPredefined p \<and> (case p_userId p of None \<Rightarrow> False | Some v \<Rightarrow> v \<noteq> uid))"

definition content_persona_denied :: "persona \<Rightarrow> objectId \<Rightarrow> bool" where
  "content_persona_denied p uid =
     (\<not> isPredefined p \<and> (case p_userId p of None \<Rightarrow> False | Some v \<Rightarrow> \<not> persona_isOwnedBy p uid))"

subsection \<open>Schema validation and persistence\<close>

text \<open>
  The validators the schemas declare, on the fields carried here. String setters
  (\<^verbatim>\<open>trim: true\<close>) run when a value is cast into a document, so lengths are those of the
  trimmed value; \<^verbatim>\<open>required\<close> on a string rejects the empty string.
\<close>

definition cast_content :: "content \<Rightarrow> content" where
  "cast_content x = x\<lparr>subjectLine := map_option trim (subjectLine x),
                      contentBody := trim (contentBody x),
                      hashtags := map trim (hashtags x)\<rparr>"

definition valid_content :: "content \<Rightarrow> bool" where
  "valid_content x =
     (contentType x \<in> set contentType_enum
      \<and> (case platform x of None \<Rightarrow> False | Some p \<Rightarrow> p \<in> set platform_enum)
      \<and> (case subjectLine x of None \<Rightarrow> True | Some s \<Rightarrow> length (trim s) \<le> 200)
      \<and> trim (contentBody x) \<noteq> [] \<and> length (trim (contentBody x)) \<le> 5000
      \<and> list_all (\<lambda>v. startsWith (trim v) ''#'') (hashtags x)
      \<and> 0 \<le> qualityScore x \<and> qualityScore x \<le> 100)"

definition valid_generationSettings :: "generationSettings \<Rightarrow> bool" where
  "valid_generationSettings g =
     (list_all (\<lambda>p. p \<in> set platform_enum) (gs_platforms g)
      \<and> (case gs_customInstructions g of None \<Rightarrow> True | Some s \<Rightarrow> length (trim s) \<le> 1000))"

text \<open>
  The custom validator of \<^verbatim>\<open>endDate\<close>, \<^verbatim>\<open>function (v) { return v > this.startDate; }\<close>.
  Its first argument is what \<^verbatim>\<open>this.startDate\<close> reads where the validator runs, \<open>None\<close>
  for \<^verbatim>\<open>undefined\<close>; a comparison of a date with \<^verbatim>\<open>undefined\<close> is false.
\<close>

definition endDate_validator :: "int option \<Rightarrow> int \<Rightarrow> bool" where
  "endDate_validator this_startDate v = (case this_startDate of None \<Rightarrow> False | Some s \<Rightarrow> s < v)"

definition valid_campaign :: "campaign \<Rightarrow> bool" where
  \<comment> \<open>validation of a document: \<^verbatim>\<open>this\<close> is the document\<close>
  "valid_campaign c =
     (trim (name c) \<noteq> [] \<and> length (trim (name c)) \<le> 200
      \<and> objective c \<in> set objective_enum
      \<and> status c \<in> set status_enum
      \<and> endDate_validator (Some (startDate c)) (endDate c)
      \<and> list_all valid_content (content c)
      \<and> valid_generationSettings (generationSettings c)
      \<and> list_all (\<lambda>k. collab_role k \<in> set role_enum) (collaborators c))"

text \<open>
  The \<^verbatim>\<open>pre("save")\<close> hook. Each ratio is assigned only under its guard; with the guard
  false the stored value stays. The arithmetic is that of the number type, used through
  \<open>/\<close> and \<open>*\<close> only.
\<close>

definition pre_save :: "('n::{zero,ord,times,inverse,numeral}) metrics \<Rightarrow> 'n metrics" where
  "pre_save m =
     (let m1 = (if 0 < totalImpressions m
                then m\<lparr>ctr := (totalClicks m / totalImpressions m) * 100\<rparr> else m);
          m2 = (if 0 < totalClicks m1
                then m1\<lparr>cpc := totalSpent m1 / totalClicks m1\<rparr> else m1);
          m3 = (if 0 < totalConversions m2
                then m2\<lparr>cpa := totalSpent m2 / totalConversions m2\<rparr> else m2)
      in m3)"

datatype event =
    FindCampaign objectId
  | FindPersona objectId
  | Generate string "string option"

record world =
  campaigns :: "objectId \<rightharpoonup> campaign"
  personas :: "objectId \<rightharpoonup> persona"
  trace :: "event list"

text \<open>
  \<^verbatim>\<open>document.save()\<close>: validation first, then the pre-save hook, then the write. A
  rejected save throws and writes nothing; the document in memory keeps what was assigned
  to it, so a later save of the same document meets the rejected value again. Validation
  is taken over the whole document; on a campaign that satisfied its schema when loaded
  this is validation of the modified paths. The first argument is the document's
  \<^verbatim>\<open>_id\<close>.
\<close>

definition save :: "objectId \<Rightarrow> campaign \<Rightarrow> world \<Rightarrow> js_error option \<times> campaign \<times> world" where
  "save cid d w =
     (if valid_campaign d
      then (let d' = d\<lparr>metrics := pre_save (metrics d)\<rparr>
            in (None, d', w\<lparr>campaigns := (campaigns w)(cid \<mapsto> d')\<rparr>))
      else (Some ValidationError, d, w))"

definition addContent :: "objectId \<Rightarrow> campaign \<Rightarrow> content \<Rightarrow> world \<Rightarrow> js_error option \<times> campaign \<times> world" where
  "addContent cid d contentData w = save cid (d\<lparr>content := content d @ [cast_content contentData]\<rparr>) w"

definition archive :: "objectId \<Rightarrow> campaign \<Rightarrow> world \<Rightarrow> js_error option \<times> campaign \<times> world" where
  "archive cid d w = save cid (d\<lparr>isArchived := True, status := ''archived''\<rparr>) w"

subsection \<open>Campaign controller\<close>

datatype payload =
    NoData
  | CampaignData campaign
  | ContentData content
  | VariationsData "content list"
  | BatchData "content list" "(string \<times> js_error) list option"

datatype response = Response nat bool payload
  \<comment> \<open>\<^verbatim>\<open>res.status(n).json({success, data})\<close>; messages are left out\<close>

definition logged :: "event list \<Rightarrow> world \<Rightarrow> world" where
  "logged es w = w\<lparr>trace := trace w @ es\<rparr>"

text \<open>
  \<^verbatim>\<open>createCampaign\<close>: the body is the campaign the client describes; the controller
  overwrites its owner and its status. The identifier the store assigns is a parameter.
\<close>

definition createCampaign :: "objectId \<Rightarrow> objectId \<Rightarrow> campaign \<Rightarrow> world \<Rightarrow> response \<times> world" where
  "createCampaign new_id uid body w =
     (let w1 = logged [FindPersona (personaId body)] w in
      case personas w (personaId body) of
        None \<Rightarrow> (Response 404 False NoData, w1)
      | Some persona \<Rightarrow>
          if campaign_persona_denied persona uid then (Response 403 False NoData, w1)
          else (case save new_id (body\<lparr>userId := uid, status := ''draft''\<rparr>) w1 of
                  (Some e, d, w2) \<Rightarrow> (Response 500 False NoData, w2)
                | (None, d, w2) \<Rightarrow> (Response 201 True (CampaignData d), w2)))"

text \<open>
  \<^verbatim>\<open>updateCampaign\<close>. The update document is \<^verbatim>\<open>{...req.body, updatedAt}\<close>; of the body
  the fields are carried that the route requires (\<^verbatim>\<open>name\<close>, \<^verbatim>\<open>objective\<close>,
  \<^verbatim>\<open>personaId\<close>, \<^verbatim>\<open>startDate\<close>, \<^verbatim>\<open>endDate\<close>) and \<^verbatim>\<open>status\<close>; the optional
  fields of the route are absent. A date of the body is a string: one that is not an
  ISO 8601 date, or one that denotes an instant.

  \<^verbatim>\<open>findByIdAndUpdate\<close> with \<^verbatim>\<open>runValidators\<close> casts the paths the update sets and
  applies their declared validators; it does not go through \<^verbatim>\<open>save()\<close>. A string is
  cast to an ObjectId when it has the 24 digit form, the only form the route admits. Under
  update validators \<^verbatim>\<open>this\<close> is the query, not a document, so \<^verbatim>\<open>this.startDate\<close> is
  \<^verbatim>\<open>undefined\<close> in the validator of \<^verbatim>\<open>endDate\<close>. A cast or validation error is thrown and
  answered 500 by the controller.
\<close>

datatype date_text = NotADate | ISODate int

record campaign_update =
  u_name :: "string option"
  u_objective :: "string option"
  u_personaId :: "string option"
  u_status :: "string option"
  u_startDate :: "date_text option"
  u_endDate :: "date_text option"

definition update_validators :: "campaign_update \<Rightarrow> bool" where
  "update_validators u =
     ((case u_name u of None \<Rightarrow> True | Some n \<Rightarrow> trim n \<noteq> [] \<and> length (trim n) \<le> 200)
      \<and> (case u_objective u of None \<Rightarrow> True | Some ob \<Rightarrow> ob \<in> set objective_enum)
      \<and> (case u_personaId u of None \<Rightarrow> True | Some p \<Rightarrow> isMongoId p)
      \<and> (case u_status u of None \<Rightarrow> True | Some s \<Rightarrow> s \<in> set status_enum)
      \<and> (case u_startDate u of None \<Rightarrow> True | Some NotADate \<Rightarrow> False | Some (ISODate v) \<Rightarrow> True)
      \<and> (case u_endDate u of
            None \<Rightarrow> True
          | Some NotADate \<Rightarrow> False
          | Some (ISODate v) \<Rightarrow> endDate_validator None v))"

definition apply_update :: "campaign_update \<Rightarrow> campaign \<Rightarrow> campaign" where
  "apply_update u c =
     (let c1 = (case u_name u of None \<Rightarrow> c | Some n \<Rightarrow> c\<lparr>name := trim n\<rparr>);
          c2 = (case u_objective u of None \<Rightarrow> c1 | Some ob \<Rightarrow> c1\<lparr>objective := ob\<rparr>);
          c3 = (case u_personaId u of None \<Rightarrow> c2 | Some p \<Rightarrow> c2\<lparr>personaId := p\<rparr>);
          c4 = (case u_status u of None \<Rightarrow> c3 | Some s \<Rightarrow> c3\<lparr>status := s\<rparr>);
          c5 = (case u_startDate u of Some (ISODate v) \<Rightarrow> c4\<lparr>startDate := v\<rparr> | _ \<Rightarrow> c4);
          c6 = (case u_endDate u of Some (ISODate v) \<Rightarrow> c5\<lparr>endDate := v\<rparr> | _ \<Rightarrow> c5)
      in c6)"

definition findByIdAndUpdate :: "objectId \<Rightarrow> campaign_update \<Rightarrow> campaign \<Rightarrow> world \<Rightarrow> response \<times> world" where
  "findByIdAndUpdate cid u c w =
     (if update_validators u
      then (let c' = apply_update u c
            in (Response 200 True (CampaignData c'), w\<lparr>campaigns := (campaigns w)(cid \<mapsto> c')\<rparr>))
      else (Response 500 False NoData, w))"

definition updateCampaign :: "objectId \<Rightarrow> objectId \<Rightarrow> campaign_update \<Rightarrow> world \<Rightarrow> response \<times> world" where
  "updateCampaign uid cid body w =
     (let w1 = logged [FindCampaign cid] w in
      case campaigns w cid of
        None \<Rightarrow> (Response 404 False NoData, w1)
      | Some campaign \<Rightarrow>
          (case canBeEditedBy campaign uid of
             Inl e \<Rightarrow> (Response 500 False NoData, w1)
           | Inr False \<Rightarrow> (Response 403 False NoData, w1)
           | Inr True \<Rightarrow>
               (case u_personaId body of
                  None \<Rightarrow> findByIdAndUpdate cid body campaign w1
                | Some pid \<Rightarrow>
                    if pid \<noteq> [] \<and> pid \<noteq> personaId campaign
                    then (let w2 = logged [FindPersona pid] w1 in
                          if \<not> isMongoId pid then (Response 500 False NoData, w2)
                          else case personas w pid of
                            None \<Rightarrow> (Response 404 False NoData, w2)
                          | Some persona \<Rightarrow>
                              if campaign_persona_denied persona uid
                              then (Response 403 False NoData, w2)
                              else findByIdAndUpdate cid body campaign w2)
                    else findByIdAndUpdate cid body campaign w1)))"

text \<open>
  The route \<^verbatim>\<open>router.put("/:id", validateObjectId, validateCampaign, updateCampaign)\<close>.
  Each validator chain answers 400 on a failure and the controller is not called. The
  first argument is the time of the request, which \<^verbatim>\<open>new Date()\<close> reads in the check of
  \<^verbatim>\<open>startDate\<close>. The \<^verbatim>\<open>trim()\<close> of the chain of \<^verbatim>\<open>name\<close> rewrites the body.
\<close>

definition validateCampaign :: "int \<Rightarrow> campaign_update \<Rightarrow> bool" where
  "validateCampaign now b =
     ((case u_name b of None \<Rightarrow> False | Some n \<Rightarrow> trim n \<noteq> [] \<and> length (trim n) \<le> 200)
      \<and> (case u_objective b of None \<Rightarrow> False | Some ob \<Rightarrow> ob \<noteq> [] \<and> ob \<in> set objective_enum)
      \<and> (case u_personaId b of None \<Rightarrow> False | Some p \<Rightarrow> isMongoId p)
      \<and> (case u_startDate b of Some (ISODate v) \<Rightarrow> \<not> v < now | _ \<Rightarrow> False)
      \<and> (case u_endDate b of
            Some (ISODate e) \<Rightarrow>
              (case u_startDate b of Some (ISODate v) \<Rightarrow> \<not> e \<le> v | _ \<Rightarrow> True)
          | _ \<Rightarrow> False))"

definition put_campaign :: "int \<Rightarrow> objectId \<Rightarrow> string \<Rightarrow> campaign_update \<Rightarrow> world \<Rightarrow> response \<times> world" where
  "put_campaign now uid cid body w =
     (if \<not> isMongoId cid then (Response 400 False NoData, w)
      else if \<not> validateCampaign now body then (Response 400 False NoData, w)
      else updateCampaign uid cid (body\<lparr>u_name := map_option trim (u_name body)\<rparr>) w)"

definition deleteCampaign :: "objectId \<Rightarrow> objectId \<Rightarrow> world \<Rightarrow> response \<times> world" where
  "deleteCampaign uid cid w =
     (let w1 = logged [FindCampaign cid] w in
      case campaigns w cid of
        None \<Rightarrow> (Response 404 False NoData, w1)
      | Some campaign \<Rightarrow>
          if \<not> isOwnedBy campaign uid then (Response 403 False NoData, w1)
          else (Response 200 True NoData, w1\<lparr>campaigns := (campaigns w1)(cid := None)\<rparr>))"

definition archiveCampaign :: "objectId \<Rightarrow> objectId \<Rightarrow> world \<Rightarrow> response \<times> world" where
  "archiveCampaign uid cid w =
     (let w1 = logged [FindCampaign cid] w in
      case campaigns w cid of
        None \<Rightarrow> (Response 404 False NoData, w1)
      | Some campaign \<Rightarrow>
          (case canBeEditedBy campaign uid of
             Inl e \<Rightarrow> (Response 500 False NoData, w1)
           | Inr False \<Rightarrow> (Response 403 False NoData, w1)
           | Inr True \<Rightarrow>
               (case archive cid campaign w1 of
                  (Some e, d, w2) \<Rightarrow> (Response 500 False NoData, w2)
                | (None, d, w2) \<Rightarrow> (Response 200 True NoData, w2))))"

definition addContentToCampaign :: "objectId \<Rightarrow> objectId \<Rightarrow> content \<Rightarrow> world \<Rightarrow> response \<times> world" where
  "addContentToCampaign uid cid body w =
     (let w1 = logged [FindCampaign cid] w in
      case campaigns w cid of
        None \<Rightarrow> (Response 404 False NoData, w1)
      | Some campaign \<Rightarrow>
          (case canBeEditedBy campaign uid of
             Inl e \<Rightarrow> (Response 500 False NoData, w1)
           | Inr False \<Rightarrow> (Response 403 False NoData, w1)
           | Inr True \<Rightarrow>
               (case addContent cid campaign body w1 of
                  (Some e, d, w2) \<Rightarrow> (Response 500 False NoData, w2)
                | (None, d, w2) \<Rightarrow> (Response 201 True (ContentData (last (content d))), w2))))"

fun status_code :: "response \<Rightarrow> nat" where
  "status_code (Response n ok d) = n"

subsection \<open>Generation service\<close>

text \<open>
  The capability is external: every \<^verbatim>\<open>chat.completions.create\<close> call either resolves
  with a text or rejects (\<open>None\<close>; a reply without text makes the following
  \<^verbatim>\<open>.content.trim()\<close> throw inside the same \<^verbatim>\<open>try\<close>, with the same outcome). A script
  holds the replies to the calls of one generation: subject line (email only), body, score.
  Prompts are built from the persona and the campaign and sent to the capability; they do
  not enter the result otherwise, and the provenance fields \<^verbatim>\<open>generationPrompt\<close> and
  \<^verbatim>\<open>createdAt\<close> are not carried.
\<close>

record ai_script =
  subject_reply :: "string option"
  body_reply :: "string option"
  score_reply :: "string option"

record ai_env =
  api_key :: "string option"
  openai :: "nat \<Rightarrow> ai_script"

definition isAvailable :: "ai_env \<Rightarrow> bool" where
  \<comment> \<open>\<^verbatim>\<open>!!process.env.OPENAI_API_KEY\<close>\<close>
  "isAvailable env = (case api_key env of None \<Rightarrow> False | Some k \<Rightarrow> k \<noteq> [])"

definition digit_of :: "nat \<Rightarrow> char \<Rightarrow> nat option" where
  "digit_of radix c =
     (let n = (of_char c :: nat);
          d = (if 48 \<le> n \<and> n \<le> 57 then Some (n - 48)
               else if 97 \<le> n \<and> n \<le> 122 then Some (n - 87)
               else if 65 \<le> n \<and> n \<le> 90 then Some (n - 55)
               else None)
      in case d of None \<Rightarrow> None | Some v \<Rightarrow> if v < radix then Some v else None)"

fun digits_value :: "nat \<Rightarrow> nat \<Rightarrow> string \<Rightarrow> nat" where
  "digits_value radix acc [] = acc"
| "digits_value radix acc (c # cs) =
     (case digit_of radix c of
        None \<Rightarrow> acc
      | Some v \<Rightarrow> digits_value radix (acc * radix + v) cs)"

definition parseInt :: "string \<Rightarrow> int option" where
  \<comment> \<open>\<open>None\<close> is NaN\<close>
  "parseInt s =
     (let t = dropWhile is_space s;
          neg = (case t of [] \<Rightarrow> False | c # r \<Rightarrow> c = CHR ''-'');
          t1 = (case t of [] \<Rightarrow> t | c # r \<Rightarrow> if c = CHR ''-'' \<or> c = CHR ''+'' then r else t);
          hex = (case t1 of a # b # r \<Rightarrow> a = CHR ''0'' \<and> (b = CHR ''x'' \<or> b = CHR ''X'') | _ \<Rightarrow> False);
          radix = (if hex then 16 else 10);
          t2 = (if hex then drop 2 t1 else t1)
      in case t2 of
           [] \<Rightarrow> None
         | c # r \<Rightarrow>
             (case digit_of radix c of
                None \<Rightarrow> None
              | Some v \<Rightarrow> Some ((if neg then - 1 else 1) * int (digits_value radix 0 t2))))"

definition scoreContentQuality :: "string option \<Rightarrow> int" where
  "scoreContentQuality reply =
     (case reply of
        None \<Rightarrow> 75
      | Some text \<Rightarrow>
          (let score = (case parseInt (trim text) of None \<Rightarrow> 0 | Some n \<Rightarrow> n)
           in max 0 (min 100 score)))"

text \<open>
  \<^verbatim>\<open>content.match(/#[\w]+/g) || []\<close> and
  \<^verbatim>\<open>content.replace(/\n\n#[\w\s#]+$/, "")\<close>: the hashtags are the maximal runs of word
  characters behind a \<open>#\<close>; the block removed starts at the first place from which two
  newlines, a \<open>#\<close> and at least one more character of the class lead to the end.
\<close>

function match_hashtags :: "string \<Rightarrow> string list" where
  "match_hashtags [] = []"
| "match_hashtags (c # cs) =
     (if c = CHR ''#'' \<and> takeWhile is_word cs \<noteq> []
      then (c # takeWhile is_word cs) # match_hashtags (dropWhile is_word cs)
      else match_hashtags cs)"
  by pat_completeness auto
termination
  by (relation "measure length") (auto simp: le_imp_less_Suc length_dropWhile_le)

definition trailing_block :: "string \<Rightarrow> bool" where
  "trailing_block s =
     (case s of
        a # b # h # r \<Rightarrow>
          a = CHR 0x0A \<and> b = CHR 0x0A \<and> h = CHR ''#'' \<and> r \<noteq> []
          \<and> list_all (\<lambda>c. is_word c \<or> is_space c \<or> c = CHR ''#'') r
      | _ \<Rightarrow> False)"

fun remove_trailing_block :: "string \<Rightarrow> string" where
  "remove_trailing_block [] = []"
| "remove_trailing_block (c # cs) =
     (if trailing_block (c # cs) then [] else c # remove_trailing_block cs)"

definition aiService_generateEmailContent :: "ai_script \<Rightarrow> persona \<Rightarrow> campaign \<Rightarrow> js_error + content" where
  "aiService_generateEmailContent script persona campaign =
     (case subject_reply script of
        None \<Rightarrow> Inl (Error ''Failed to generate email content'')
      | Some subject \<Rightarrow>
          (case body_reply script of
             None \<Rightarrow> Inl (Error ''Failed to generate email content'')
           | Some body \<Rightarrow>
               Inr \<lparr>contentType = ''email'', platform = Some ''email'',
                    subjectLine = Some (trim subject), contentBody = trim body, hashtags = [],
                    qualityScore = scoreContentQuality (score_reply script)\<rparr>))"

definition aiService_generateSocialContent ::
  "ai_script \<Rightarrow> persona \<Rightarrow> campaign \<Rightarrow> string option \<Rightarrow> js_error + content" where
  "aiService_generateSocialContent script persona campaign pf =
     (case body_reply script of
        None \<Rightarrow> Inl (Error ''Failed to generate social media content'')
      | Some text \<Rightarrow>
          (let c = trim text
           in Inr \<lparr>contentType = ''social_post'', platform = pf, subjectLine = None,
                   contentBody = trim (remove_trailing_block c), hashtags = match_hashtags c,
                   qualityScore = scoreContentQuality (score_reply script)\<rparr>))"

definition aiService_generateAdCopy ::
  "ai_script \<Rightarrow> persona \<Rightarrow> campaign \<Rightarrow> string option \<Rightarrow> js_error + content" where
  \<comment> \<open>the parameter default: \<^verbatim>\<open>platform = "google-ads"\<close>\<close>
  "aiService_generateAdCopy script persona campaign pf =
     (let platform = (case pf of None \<Rightarrow> ''google-ads'' | Some p \<Rightarrow> p)
      in case body_reply script of
           None \<Rightarrow> Inl (Error ''Failed to generate ad copy'')
         | Some text \<Rightarrow>
             Inr \<lparr>contentType = ''ad_copy'', platform = Some platform, subjectLine = None,
                  contentBody = trim text, hashtags = [],
                  qualityScore = scoreContentQuality (score_reply script)\<rparr>)"

fun promise_all :: "(js_error + 'a) list \<Rightarrow> js_error + 'a list" where
  "promise_all [] = Inr []"
| "promise_all (p # ps) =
     (case p of
        Inl e \<Rightarrow> Inl e
      | Inr x \<Rightarrow> (case promise_all ps of Inl e \<Rightarrow> Inl e | Inr xs \<Rightarrow> Inr (x # xs)))"

definition variation_promise ::
  "(nat \<Rightarrow> ai_script) \<Rightarrow> persona \<Rightarrow> campaign \<Rightarrow> string \<Rightarrow> nat \<Rightarrow> (js_error + content) list" where
  \<comment> \<open>the body of the loop for index \<open>i\<close>: at most one promise is pushed\<close>
  "variation_promise ai persona campaign ct i =
     (if ct = ''email'' then [aiService_generateEmailContent (ai i) persona campaign]
      else if ct = ''social_post''
      then [aiService_generateSocialContent (ai i) persona campaign
              (case gs_platforms (generationSettings campaign) of [] \<Rightarrow> None | p # ps \<Rightarrow> Some p)]
      else if ct = ''ad_copy'' then [aiService_generateAdCopy (ai i) persona campaign None]
      else [])"

definition variation_promises ::
  "(nat \<Rightarrow> ai_script) \<Rightarrow> persona \<Rightarrow> campaign \<Rightarrow> string \<Rightarrow> nat \<Rightarrow> (js_error + content) list" where
  \<comment> \<open>\<^verbatim>\<open>for (let i = 0; i < variations; i++)\<close>; the generation of index \<open>i\<close> reads script \<open>i\<close>\<close>
  "variation_promises ai persona campaign ct n =
     concat (map (variation_promise ai persona campaign ct) [0..<n])"

definition aiService_generateContentVariations ::
  "(nat \<Rightarrow> ai_script) \<Rightarrow> persona \<Rightarrow> campaign \<Rightarrow> string \<Rightarrow> nat \<Rightarrow> js_error + content list" where
  "aiService_generateContentVariations ai persona campaign ct n =
     (case promise_all (variation_promises ai persona campaign ct n) of
        Inl e \<Rightarrow> Inl (Error ''Failed to generate content variations'')
      | Inr results \<Rightarrow> Inr results)"

subsection \<open>Content controller\<close>

text \<open>
  The request body of the five generation routes. \<^verbatim>\<open>variations\<close> is a count; the loop of
  the service runs while \<^verbatim>\<open>i < variations\<close>.
\<close>

record generation_request =
  campaignId :: objectId
  r_personaId :: objectId
  r_platform :: "string option"
  customInstructions :: "string option"
  r_contentType :: "string option"
  variations :: "nat option"
  contentTypes :: "string list option"
  platforms :: "string list option"

text \<open>
  The five controllers share, after their availability check, the same text: both lookups
  at once, the two 404 answers, the campaign check, the persona check. It is written once.
\<close>

definition load_and_authorize ::
  "objectId \<Rightarrow> generation_request \<Rightarrow> world \<Rightarrow> (response + campaign \<times> persona) \<times> world" where
  "load_and_authorize uid body w =
     (let w1 = logged [FindCampaign (campaignId body), FindPersona (r_personaId body)] w in
      case campaigns w (campaignId body) of
        None \<Rightarrow> (Inl (Response 404 False NoData), w1)
      | Some campaign \<Rightarrow>
          (case personas w (r_personaId body) of
             None \<Rightarrow> (Inl (Response 404 False NoData), w1)
           | Some persona \<Rightarrow>
               (case canBeEditedBy campaign uid of
                  Inl e \<Rightarrow> (Inl (Response 500 False NoData), w1)
                | Inr False \<Rightarrow> (Inl (Response 403 False NoData), w1)
                | Inr True \<Rightarrow>
                    if content_persona_denied persona uid
                    then (Inl (Response 403 False NoData), w1)
                    else (Inr (campaign, persona), w1))))"

definition merge_customInstructions :: "string option \<Rightarrow> campaign \<Rightarrow> campaign" where
  "merge_customInstructions ci campaign =
     (case ci of
        None \<Rightarrow> campaign
      | Some s \<Rightarrow>
          if s = [] then campaign
          else campaign\<lparr>generationSettings :=
                 (generationSettings campaign)\<lparr>gs_customInstructions := Some (trim s)\<rparr>\<rparr>)"

definition persist_generated ::
  "objectId \<Rightarrow> campaign \<Rightarrow> js_error + content \<Rightarrow> world \<Rightarrow> response \<times> world" where
  \<comment> \<open>the tail of the three single-item controllers: a thrown error is caught and answered 500\<close>
  "persist_generated cid campaign generated w =
     (case generated of
        Inl e \<Rightarrow> (Response 500 False NoData, w)
      | Inr item \<Rightarrow>
          (case addContent cid campaign item w of
             (Some e, d, w') \<Rightarrow> (Response 500 False NoData, w')
           | (None, d, w') \<Rightarrow> (Response 200 True (ContentData item), w')))"

definition generateEmailContent :: "ai_env \<Rightarrow> objectId \<Rightarrow> generation_request \<Rightarrow> world \<Rightarrow> response \<times> world" where
  "generateEmailContent env uid body w =
     (if \<not> isAvailable env then (Response 503 False NoData, w)
      else case load_and_authorize uid body w of
             (Inl r, w1) \<Rightarrow> (r, w1)
           | (Inr (campaign, persona), w1) \<Rightarrow>
               (let campaign1 = merge_customInstructions (customInstructions body) campaign;
                    w2 = logged [Generate ''email'' (Some ''email'')] w1
                in persist_generated (campaignId body) campaign1
                     (aiService_generateEmailContent (openai env 0) persona campaign1) w2))"

definition generateSocialContent :: "ai_env \<Rightarrow> objectId \<Rightarrow> generation_request \<Rightarrow> world \<Rightarrow> response \<times> world" where
  "generateSocialContent env uid body w =
     (if \<not> isAvailable env then (Response 503 False NoData, w)
      else if (case r_platform body of
                 None \<Rightarrow> True
               | Some p \<Rightarrow> p \<notin> set [''linkedin'', ''facebook'', ''twitter'', ''instagram'',
                                     ''youtube'', ''tiktok''])
      then (Response 400 False NoData, w)
      else case load_and_authorize uid body w of
             (Inl r, w1) \<Rightarrow> (r, w1)
           | (Inr (campaign, persona), w1) \<Rightarrow>
               (let campaign1 = merge_customInstructions (customInstructions body) campaign;
                    w2 = logged [Generate ''social_post'' (r_platform body)] w1
                in persist_generated (campaignId body) campaign1
                     (aiService_generateSocialContent (openai env 0) persona campaign1
                        (r_platform body)) w2))"

definition generateAdCopy :: "ai_env \<Rightarrow> objectId \<Rightarrow> generation_request \<Rightarrow> world \<Rightarrow> response \<times> world" where
  "generateAdCopy env uid body w =
     (let platform = (case r_platform body of None \<Rightarrow> ''google-ads'' | Some p \<Rightarrow> p) in
      if \<not> isAvailable env then (Response 503 False NoData, w)
      else case load_and_authorize uid body w of
             (Inl r, w1) \<Rightarrow> (r, w1)
           | (Inr (campaign, persona), w1) \<Rightarrow>
               (let campaign1 = merge_customInstructions (customInstructions body) campaign;
                    w2 = logged [Generate ''ad_copy'' (Some platform)] w1
                in persist_generated (campaignId body) campaign1
                     (aiService_generateAdCopy (openai env 0) persona campaign1 (Some platform)) w2))"

fun add_all :: "objectId \<Rightarrow> campaign \<Rightarrow> content list \<Rightarrow> world \<Rightarrow> js_error option \<times> campaign \<times> world" where
  \<comment> \<open>\<^verbatim>\<open>for (const content of contentVariations) await campaign.addContent(content)\<close>\<close>
  "add_all cid d [] w = (None, d, w)"
| "add_all cid d (x # xs) w =
     (case addContent cid d x w of
        (Some e, d', w') \<Rightarrow> (Some e, d', w')
      | (None, d', w') \<Rightarrow> add_all cid d' xs w')"

definition variation_document :: "generation_request \<Rightarrow> string \<Rightarrow> campaign \<Rightarrow> campaign" where
  \<comment> \<open>\<^verbatim>\<open>campaign.generationSettings.platforms = platform ? [platform] : ["linkedin"]\<close>
      for social posts\<close>
  "variation_document body ct campaign =
     (let chosen = (case r_platform body of
                      None \<Rightarrow> [''linkedin'']
                    | Some p \<Rightarrow> if p = [] then [''linkedin''] else [p])
      in if ct = ''social_post''
         then campaign\<lparr>generationSettings :=
                (generationSettings campaign)\<lparr>gs_platforms := chosen\<rparr>\<rparr>
         else campaign)"

definition generateContentVariations :: "ai_env \<Rightarrow> objectId \<Rightarrow> generation_request \<Rightarrow> world \<Rightarrow> response \<times> world" where
  "generateContentVariations env uid body w =
     (let n = (case variations body of None \<Rightarrow> 2 | Some v \<Rightarrow> v) in
      if \<not> isAvailable env then (Response 503 False NoData, w)
      else case r_contentType body of
        None \<Rightarrow> (Response 400 False NoData, w)
      | Some ct \<Rightarrow>
          if ct \<notin> set [''email'', ''social_post'', ''ad_copy''] then (Response 400 False NoData, w)
          else if n < 2 \<or> n > 5 then (Response 400 False NoData, w)
          else (case load_and_authorize uid body w of
                 (Inl r, w1) \<Rightarrow> (r, w1)
               | (Inr (campaign, persona), w1) \<Rightarrow>
                   (let campaign1 = variation_document body ct campaign;
                        w2 = logged (replicate n (Generate ct None)) w1
                    in case aiService_generateContentVariations (openai env) persona campaign1 ct n of
                         Inl e \<Rightarrow> (Response 500 False NoData, w2)
                       | Inr contentVariations \<Rightarrow>
                           (case add_all (campaignId body) campaign1 contentVariations w2 of
                              (Some e, d, w3) \<Rightarrow> (Response 500 False NoData, w3)
                            | (None, d, w3) \<Rightarrow>
                                (Response 200 True (VariationsData contentVariations), w3)))))"

text \<open>
  Batch generation. The state of the loop: the campaign document in memory, the world, the
  two result lists, and the number of generations requested so far (the index of the next
  script). An exception leaves the state as it was when thrown.
\<close>

record batch_state =
  doc :: campaign
  bw :: world
  generatedContent :: "content list"
  errors :: "(string \<times> js_error) list"
  calls :: nat

definition generate_and_add ::
  "objectId \<Rightarrow> string \<Rightarrow> string option \<Rightarrow> (campaign \<Rightarrow> js_error + content) \<Rightarrow> batch_state
     \<Rightarrow> js_error option \<times> batch_state" where
  \<comment> \<open>one generation, \<^verbatim>\<open>addContent\<close>, \<^verbatim>\<open>generatedContent.push\<close>\<close>
  "generate_and_add cid ct pf gen st =
     (let st1 = st\<lparr>bw := logged [Generate ct pf] (bw st), calls := calls st + 1\<rparr> in
      case gen (doc st) of
        Inl e \<Rightarrow> (Some e, st1)
      | Inr item \<Rightarrow>
          (case addContent cid (doc st1) item (bw st1) of
             (Some e, d, w) \<Rightarrow> (Some e, st1\<lparr>doc := d, bw := w\<rparr>)
           | (None, d, w) \<Rightarrow>
               (None, st1\<lparr>doc := d, bw := w,
                          generatedContent := generatedContent st1 @ [item]\<rparr>)))"

fun social_loop ::
  "(nat \<Rightarrow> ai_script) \<Rightarrow> objectId \<Rightarrow> persona \<Rightarrow> string list \<Rightarrow> batch_state
     \<Rightarrow> js_error option \<times> batch_state" where
  "social_loop ai cid persona [] st = (None, st)"
| "social_loop ai cid persona (p # ps) st =
     (case generate_and_add cid ''social_post'' (Some p)
             (\<lambda>d. aiService_generateSocialContent (ai (calls st)) persona d (Some p)) st of
        (Some e, st') \<Rightarrow> (Some e, st')
      | (None, st') \<Rightarrow> social_loop ai cid persona ps st')"

definition batch_step ::
  "(nat \<Rightarrow> ai_script) \<Rightarrow> objectId \<Rightarrow> persona \<Rightarrow> string list \<Rightarrow> string \<Rightarrow> batch_state
     \<Rightarrow> batch_state" where
  \<comment> \<open>the body of the outer loop: one content type inside its \<^verbatim>\<open>try\<close>/\<^verbatim>\<open>catch\<close>\<close>
  "batch_step ai cid persona pfs ct st =
     (case (if ct = ''email''
            then generate_and_add cid ''email'' (Some ''email'')
                   (\<lambda>d. aiService_generateEmailContent (ai (calls st)) persona d) st
            else if ct = ''social_post''
            then social_loop ai cid persona (filter (\<lambda>p. p \<noteq> ''email'') pfs) st
            else if ct = ''ad_copy''
            then generate_and_add cid ''ad_copy'' None
                   (\<lambda>d. aiService_generateAdCopy (ai (calls st)) persona d None) st
            else (None, st)) of
        (None, st') \<Rightarrow> st'
      | (Some e, st') \<Rightarrow> st'\<lparr>errors := errors st' @ [(ct, e)]\<rparr>)"

fun batch_loop ::
  "(nat \<Rightarrow> ai_script) \<Rightarrow> objectId \<Rightarrow> persona \<Rightarrow> string list \<Rightarrow> string list \<Rightarrow> batch_state
     \<Rightarrow> batch_state" where
  "batch_loop ai cid persona pfs [] st = st"
| "batch_loop ai cid persona pfs (ct # cts) st =
     batch_loop ai cid persona pfs cts (batch_step ai cid persona pfs ct st)"

definition batchGenerateContent :: "ai_env \<Rightarrow> objectId \<Rightarrow> generation_request \<Rightarrow> world \<Rightarrow> response \<times> world" where
  "batchGenerateContent env uid body w =
     (let cts = (case contentTypes body of None \<Rightarrow> [''email'', ''social_post''] | Some l \<Rightarrow> l);
          pfs = (case platforms body of None \<Rightarrow> [''email'', ''linkedin''] | Some l \<Rightarrow> l) in
      if \<not> isAvailable env then (Response 503 False NoData, w)
      else case load_and_authorize uid body w of
             (Inl r, w1) \<Rightarrow> (r, w1)
           | (Inr (campaign, persona), w1) \<Rightarrow>
               (let campaign1 = merge_customInstructions (customInstructions body) campaign;
                    st = batch_loop (openai env) (campaignId body) persona pfs cts
                           \<lparr>doc = campaign1, bw = w1, generatedContent = [], errors = [],
                            calls = 0\<rparr>
                in (Response 200 True
                      (BatchData (generatedContent st)
                         (if errors st \<noteq> [] then Some (errors st) else None)),
                    bw st)))"

subsection \<open>The operations that write campaigns\<close>

text \<open>
  The requests of the API whose handlers write the campaign collection, and their
  dispatch. The update goes through its route, whose validators decide what the controller
  receives; the other handlers are the controllers, which the validators of their routes
  only shield from some requests. The server holds the generation capability, the time
  and the identifier the store gives to the next campaign.
\<close>

record server =
  srv_ai :: ai_env
  srv_now :: int
  srv_new_id :: objectId

datatype request =
    Create_Campaign campaign
  | Update_Campaign string campaign_update
  | Delete_Campaign objectId
  | Archive_Campaign objectId
  | Add_Content objectId content
  | Generate_Email generation_request
  | Generate_Social generation_request
  | Generate_AdCopy generation_request
  | Generate_Variations generation_request
  | Batch_Generate generation_request

fun handle :: "server \<Rightarrow> objectId \<Rightarrow> request \<Rightarrow> world \<Rightarrow> response \<times> world" where
  "handle srv uid (Create_Campaign body) w = createCampaign (srv_new_id srv) uid body w"
| "handle srv uid (Update_Campaign cid body) w = put_campaign (srv_now srv) uid cid body w"
| "handle srv uid (Delete_Campaign cid) w = deleteCampaign uid cid w"
| "handle srv uid (Archive_Campaign cid) w = archiveCampaign uid cid w"
| "handle srv uid (Add_Content cid body) w = addContentToCampaign uid cid body w"
| "handle srv uid (Generate_Email body) w = generateEmailContent (srv_ai srv) uid body w"
| "handle srv uid (Generate_Social body) w = generateSocialContent (srv_ai srv) uid body w"
| "handle srv uid (Generate_AdCopy body) w = generateAdCopy (srv_ai srv) uid body w"
| "handle srv uid (Generate_Variations body) w = generateContentVariations (srv_ai srv) uid body w"
| "handle srv uid (Batch_Generate body) w = batchGenerateContent (srv_ai srv) uid body w"

definition statuses :: "world \<Rightarrow> objectId \<rightharpoonup> string" where
  "statuses w k = map_option status (campaigns w k)"

definition tracks :: "objectId \<Rightarrow> campaign \<Rightarrow> world \<Rightarrow> bool" where
  \<comment> \<open>the document in memory has the status of the stored campaign it was loaded from\<close>
  "tracks cid d w = (\<exists>c. campaigns w cid = Some c \<and> status c = status d)"

text \<open>
  The edge set of the status machine in the words of the specification: draft to
  generating to active to paused to completed to archived, paused back to active, and any
  state to archived by archiving. No code of the repository holds this relation; it is
  what the handlers are compared with.
\<close>

definition spec_edge :: "string \<Rightarrow> string \<Rightarrow> bool" where
  "spec_edge s t =
     ((s, t) \<in> set [(''draft'', ''generating''), (''generating'', ''active''),
                    (''active'', ''paused''), (''paused'', ''completed''),
                    (''completed'', ''archived''), (''paused'', ''active'')]
      \<or> t = ''archived'')"


subsection \<open>Example data\<close>

abbreviation alice :: objectId where "alice \<equiv> ''66a11ce00000000000000001''"
abbreviation bob :: objectId where "bob \<equiv> ''66b0b0000000000000000002''"
abbreviation carol :: objectId where "carol \<equiv> ''66ca40100000000000000003''"
abbreviation mallory :: objectId where "mallory \<equiv> ''66badbad0000000000000004''"
abbreviation nobody :: objectId where "nobody \<equiv> ''66000000000000000000000f''"
abbreviation campaign_1 :: objectId where "campaign_1 \<equiv> ''66c1000000000000000000c1''"
abbreviation campaign_2 :: objectId where "campaign_2 \<equiv> ''66c1000000000000000000c2''"
abbreviation persona_1 :: objectId where "persona_1 \<equiv> ''66d1000000000000000000d1''"

definition zero_metrics :: "rat metrics" where
  "zero_metrics = \<lparr>totalReach = 0, totalImpressions = 0, totalClicks = 0, totalConversions = 0,
     totalSpent = 0, ctr = 0, cpc = 0, cpa = 0, roi = 0\<rparr>"

definition demo_campaign :: "objectId \<Rightarrow> string \<Rightarrow> collaborator list \<Rightarrow> campaign" where
  "demo_campaign owner st cs =
     \<lparr>userId = owner, personaId = persona_1, name = ''Q4 Launch'', objective = ''awareness'',
      status = st, startDate = 1000, endDate = 2000, content = [],
      metrics = zero_metrics,
      generationSettings = \<lparr>gs_platforms = [], gs_customInstructions = None\<rparr>,
      collaborators = cs, isArchived = False\<rparr>"

definition demo_world :: "campaign \<Rightarrow> persona \<Rightarrow> world" where
  "demo_world c p = \<lparr>campaigns = [campaign_1 \<mapsto> c], personas = [persona_1 \<mapsto> p], trace = []\<rparr>"

definition owned_persona :: persona where
  "owned_persona = \<lparr>p_userId = Some alice, isPredefined = False\<rparr>"

definition entry :: "objectId \<Rightarrow> string \<Rightarrow> collaborator" where
  "entry uid r = \<lparr>collab_userId = Some uid, collab_role = r\<rparr>"

definition ownerless_persona :: persona where
  "ownerless_persona = \<lparr>p_userId = None, isPredefined = False\<rparr>"

definition stale_metrics :: "rat metrics" where
  "stale_metrics = \<lparr>totalReach = 0, totalImpressions = 0, totalClicks = 0, totalConversions = 0,
     totalSpent = 0, ctr = 5, cpc = 0, cpa = 0, roi = 0\<rparr>"

definition sample_metrics :: "rat metrics" where
  "sample_metrics = \<lparr>totalReach = 0, totalImpressions = 200, totalClicks = 10, totalConversions = 5,
     totalSpent = 50, ctr = 0, cpc = 0, cpa = 0, roi = 0\<rparr>"

definition script :: "string \<Rightarrow> string \<Rightarrow> string \<Rightarrow> ai_script" where
  "script s b q = \<lparr>subject_reply = Some s, body_reply = Some b, score_reply = Some q\<rparr>"

definition rejecting :: ai_script where
  "rejecting = \<lparr>subject_reply = None, body_reply = None, score_reply = None\<rparr>"

definition demo_env :: "(nat \<Rightarrow> ai_script) \<Rightarrow> ai_env" where
  "demo_env f = \<lparr>api_key = Some ''sk-demo'', openai = f\<rparr>"

definition demo_request :: generation_request where
  "demo_request = \<lparr>campaignId = campaign_1, r_personaId = persona_1, r_platform = None,
     customInstructions = None, r_contentType = None, variations = None,
     contentTypes = None, platforms = None\<rparr>"

definition item :: "string \<Rightarrow> string \<Rightarrow> string option \<Rightarrow> string \<Rightarrow> string list \<Rightarrow> content" where
  "item ct pf subj body tags = \<lparr>contentType = ct, platform = Some pf, subjectLine = subj,
     contentBody = body, hashtags = tags, qualityScore = 80\<rparr>"

definition demo_start :: world where
  "demo_start = demo_world (demo_campaign alice ''draft'' []) owned_persona"


definition replies_except :: "nat \<Rightarrow> nat \<Rightarrow> ai_script" where
  "replies_except k i = (if i = k then rejecting else script ''Hello'' ''Big news #q4'' ''80'')"

definition no_key :: ai_env where
  "no_key = \<lparr>api_key = None, openai = (\<lambda>i. rejecting)\<rparr>"

definition admitted_body :: "string \<Rightarrow> string option \<Rightarrow> campaign_update" where
  \<comment> \<open>a body the update route admits at time 0\<close>
  "admitted_body n st =
     \<lparr>u_name = Some n, u_objective = Some ''awareness'', u_personaId = Some persona_1,
      u_status = st, u_startDate = Some (ISODate 1000), u_endDate = Some (ISODate 2000)\<rparr>"

definition demo_server :: server where
  "demo_server = \<lparr>srv_ai = no_key, srv_now = 0, srv_new_id = campaign_2\<rparr>"

section \<open>Verified properties\<close>

subsection \<open>Access control\<close>

lemma find_collaborator_prefix:
  "(\<forall>k \<in> set pre. \<exists>v. collab_userId k = Some v \<and> v \<noteq> uid) \<Longrightarrow>
     find_collaborator (pre @ cs) uid = find_collaborator cs uid"
  by (induction pre) auto

lemma find_collaborator_split:
  "find_collaborator cs uid = Inr (Some e) \<Longrightarrow>
     \<exists>pre post. cs = pre @ e # post
        \<and> (\<forall>k \<in> set pre. \<exists>v. collab_userId k = Some v \<and> v \<noteq> uid)
        \<and> collab_userId e = Some uid"
proof (induction cs)
  case Nil
  then show ?case by simp
next
  case (Cons c cs)
  from Cons.prems obtain v where v: "collab_userId c = Some v"
    by (cases "collab_userId c") auto
  show ?case
  proof (cases "v = uid")
    case True
    with v Cons.prems have "c = e" by simp
    with v True have "c # cs = [] @ e # cs \<and> collab_userId e = Some uid" by simp
    then show ?thesis by (metis empty_iff list.set(1))
  next
    case False
    with v Cons.prems have "find_collaborator cs uid = Inr (Some e)" by simp
    from Cons.IH [OF this] obtain pre post where
      "cs = pre @ e # post" "\<forall>k \<in> set pre. \<exists>v. collab_userId k = Some v \<and> v \<noteq> uid"
      "collab_userId e = Some uid" by blast
    with v False have "c # cs = (c # pre) @ e # post
        \<and> (\<forall>k \<in> set (c # pre). \<exists>v. collab_userId k = Some v \<and> v \<noteq> uid)
        \<and> collab_userId e = Some uid" by simp
    then show ?thesis by blast
  qed
qed

lemma find_collaborator_Some:
  "find_collaborator cs uid = Inr (Some e) \<longleftrightarrow>
     (\<exists>pre post. cs = pre @ e # post
        \<and> (\<forall>k \<in> set pre. \<exists>v. collab_userId k = Some v \<and> v \<noteq> uid)
        \<and> collab_userId e = Some uid)"
proof
  assume "find_collaborator cs uid = Inr (Some e)"
  then show "\<exists>pre post. cs = pre @ e # post
        \<and> (\<forall>k \<in> set pre. \<exists>v. collab_userId k = Some v \<and> v \<noteq> uid)
        \<and> collab_userId e = Some uid"
    by (rule find_collaborator_split)
next
  assume "\<exists>pre post. cs = pre @ e # post
        \<and> (\<forall>k \<in> set pre. \<exists>v. collab_userId k = Some v \<and> v \<noteq> uid)
        \<and> collab_userId e = Some uid"
  then obtain pre post where h: "cs = pre @ e # post"
      "\<forall>k \<in> set pre. \<exists>v. collab_userId k = Some v \<and> v \<noteq> uid" "collab_userId e = Some uid"
    by blast
  from h(2) have "find_collaborator (pre @ e # post) uid = find_collaborator (e # post) uid"
    by (rule find_collaborator_prefix)
  with h(1,3) show "find_collaborator cs uid = Inr (Some e)" by simp
qed

text \<open>
  Claim C5, as the code has it. \<open>canBeEditedBy\<close> returns true exactly when the user is the
  owner, or the first collaborator entry for that user has role editor or admin; entries
  before it belong to other users. An entry with role viewer never grants edit, and a later
  editor entry behind a viewer entry of the same user is not looked at.
\<close>

theorem canBeEditedBy_first_entry:
  "canBeEditedBy c uid = Inr True \<longleftrightarrow>
     isOwnedBy c uid \<or>
     (\<exists>pre e post. collaborators c = pre @ e # post
        \<and> (\<forall>k \<in> set pre. \<exists>v. collab_userId k = Some v \<and> v \<noteq> uid)
        \<and> collab_userId e = Some uid
        \<and> (collab_role e = ''editor'' \<or> collab_role e = ''admin''))"
proof (cases "isOwnedBy c uid")
  case True
  then show ?thesis by (simp add: canBeEditedBy_def)
next
  case False
  have "canBeEditedBy c uid = Inr True \<longleftrightarrow>
      (\<exists>e. find_collaborator (collaborators c) uid = Inr (Some e)
         \<and> (collab_role e = ''editor'' \<or> collab_role e = ''admin''))"
    using False by (auto simp: canBeEditedBy_def split: sum.splits option.splits)
  with False show ?thesis
    unfolding find_collaborator_Some by blast
qed


theorem canBeEditedBy_first_entry_witness:
  "canBeEditedBy (demo_campaign alice ''draft''
      [entry carol ''viewer'', entry bob ''editor'']) bob = Inr True"
proof -
  let ?c = "demo_campaign alice ''draft'' [entry carol ''viewer'', entry bob ''editor'']"
  have "collaborators ?c = [entry carol ''viewer''] @ entry bob ''editor'' # []
      \<and> (\<forall>k \<in> set [entry carol ''viewer'']. \<exists>v. collab_userId k = Some v \<and> v \<noteq> bob)
      \<and> collab_userId (entry bob ''editor'') = Some bob
      \<and> (collab_role (entry bob ''editor'') = ''editor''
          \<or> collab_role (entry bob ''editor'') = ''admin'')"
    by (simp add: demo_campaign_def entry_def)
  then show ?thesis
    unfolding canBeEditedBy_first_entry by blast
qed

text \<open>
  Claim C5, as stated, fails when a user has two entries: bob's second entry has role
  editor, yet the first one, a viewer entry, decides.
\<close>

theorem canBeEditedBy_duplicate_entry_counterexample:
  "canBeEditedBy (demo_campaign alice ''draft''
      [entry bob ''viewer'', entry bob ''editor'']) bob = Inr False
   \<and> collab_userId (collaborators (demo_campaign alice ''draft''
      [entry bob ''viewer'', entry bob ''editor'']) ! 1) = Some bob
   \<and> collab_role (collaborators (demo_campaign alice ''draft''
      [entry bob ''viewer'', entry bob ''editor'']) ! 1) = ''editor''"
  by (simp add: canBeEditedBy_def isOwnedBy_def demo_campaign_def entry_def)

text \<open>
  Claim C4, as the code has it. For a persona that is not predefined and has no owner
  reference, the check of the campaign controller and the check of the content controller
  both let every actor through: they deny only when an owner reference is present and is
  another user's. Campaign creation with such a persona is never answered 403. The edit
  predicate of the persona model is the one that denies every actor.
\<close>

theorem persona_check_ownerless:
  assumes "\<not> isPredefined p" and "p_userId p = None"
  shows "\<not> campaign_persona_denied p uid \<and> \<not> content_persona_denied p uid
       \<and> \<not> persona_canBeEditedBy p uid
       \<and> (personas w (personaId body) = Some p \<longrightarrow>
            status_code (fst (createCampaign new_id uid body w)) \<noteq> 403)"
  using assms
  by (simp add: campaign_persona_denied_def content_persona_denied_def persona_canBeEditedBy_def
      persona_isOwnedBy_def createCampaign_def save_def Let_def split: prod.splits)

theorem persona_check_ownerless_witness:
  "\<not> campaign_persona_denied ownerless_persona mallory
   \<and> \<not> content_persona_denied ownerless_persona mallory
   \<and> \<not> persona_canBeEditedBy ownerless_persona mallory
   \<and> status_code (fst (createCampaign campaign_2 mallory (demo_campaign nobody ''active'' [])
        (demo_world (demo_campaign alice ''draft'' []) ownerless_persona))) \<noteq> 403"
proof -
  have 1: "\<not> isPredefined ownerless_persona" and 2: "p_userId ownerless_persona = None"
    by (simp_all add: ownerless_persona_def)
  have 3: "personas (demo_world (demo_campaign alice ''draft'' []) ownerless_persona)
      (personaId (demo_campaign nobody ''active'' [])) = Some ownerless_persona"
    by (simp add: demo_world_def demo_campaign_def)
  from persona_check_ownerless [OF 1 2] 3 show ?thesis by blast
qed

text \<open>
  Claim C4, as stated, fails: the persona has \<open>isPredefined = False\<close> and no owner, and
  neither check denies mallory, whose campaign on that persona is created (201).
\<close>

theorem persona_check_ownerless_counterexample:
  "\<not> isPredefined ownerless_persona \<and> p_userId ownerless_persona = None
   \<and> \<not> campaign_persona_denied ownerless_persona mallory
   \<and> \<not> content_persona_denied ownerless_persona mallory
   \<and> status_code (fst (createCampaign campaign_2 mallory (demo_campaign nobody ''active'' [])
        (demo_world (demo_campaign alice ''draft'' []) ownerless_persona))) = 201"
  by (simp add: Let_def ownerless_persona_def campaign_persona_denied_def content_persona_denied_def
      createCampaign_def save_def valid_campaign_def demo_world_def demo_campaign_def logged_def
      trim_def is_space_def status_enum_def valid_generationSettings_def objective_enum_def
      endDate_validator_def)

subsection \<open>Campaign lifecycle\<close>

text \<open>
  Claim C1. \<open>deleteCampaign\<close> checks ownership only. The owner deletes an active campaign:
  the answer is 200 and the campaign is gone from the collection, where the claim (and the
  API report of the repository: "Can only delete draft campaigns") asks for a rejection.
\<close>

theorem deleteCampaign_active_campaign:
  "deleteCampaign alice campaign_1 (demo_world (demo_campaign alice ''active'' []) owned_persona)
     = (Response 200 True NoData,
        \<lparr>campaigns = Map.empty, personas = [persona_1 \<mapsto> owned_persona], trace = [FindCampaign campaign_1]\<rparr>)"
  by (simp add: Let_def deleteCampaign_def isOwnedBy_def logged_def demo_world_def demo_campaign_def)


subsection \<open>Derived metrics\<close>

text \<open>
  Claim C9, as the code has it. On every \<open>save\<close> the pre-save hook sets
  \<open>ctr = totalClicks / totalImpressions * 100\<close> when \<open>totalImpressions > 0\<close>,
  \<open>cpc = totalSpent / totalClicks\<close> when \<open>totalClicks > 0\<close> and
  \<open>cpa = totalSpent / totalConversions\<close> when \<open>totalConversions > 0\<close>; a ratio whose
  counter is not positive keeps its stored value (0 on a fresh campaign). Running the hook
  twice gives what running it once gives, and a successful save stores the recomputed
  metrics. The statement holds for any number type with the hook's operations.
\<close>

theorem pre_save_ratios:
  fixes m :: "('n::{zero,ord,times,inverse,numeral}) metrics"
  shows "ctr (pre_save m) =
           (if 0 < totalImpressions m then (totalClicks m / totalImpressions m) * 100 else ctr m)
       \<and> cpc (pre_save m) = (if 0 < totalClicks m then totalSpent m / totalClicks m else cpc m)
       \<and> cpa (pre_save m) =
           (if 0 < totalConversions m then totalSpent m / totalConversions m else cpa m)
       \<and> pre_save (pre_save m) = pre_save m
       \<and> (\<forall>cid d w d' w'. save cid d w = (None, d', w') \<longrightarrow>
             campaigns w' cid = Some d' \<and> metrics d' = pre_save (metrics d))"
  by (auto simp: pre_save_def save_def Let_def split: if_splits)

theorem pre_save_ratios_witness:
  "0 < totalImpressions sample_metrics \<and> ctr (pre_save sample_metrics) = 5
   \<and> cpc (pre_save sample_metrics) = 5 \<and> cpa (pre_save sample_metrics) = 10
   \<and> pre_save (pre_save sample_metrics) = pre_save sample_metrics
   \<and> ctr (pre_save zero_metrics) = 0
   \<and> map_option metrics (campaigns (snd (snd (save campaign_1
        ((demo_campaign alice ''active'' [])\<lparr>metrics := sample_metrics\<rparr>) demo_start))) campaign_1)
      = Some (pre_save sample_metrics)"
proof -
  let ?d = "(demo_campaign alice ''active'' [])\<lparr>metrics := sample_metrics\<rparr>"
  have v: "valid_campaign ?d" by code_simp
  obtain d' w' where sv: "save campaign_1 ?d demo_start = (None, d', w')"
    using v by (simp add: save_def Let_def)
  from pre_save_ratios [of sample_metrics] sv
  have "campaigns w' campaign_1 = Some d' \<and> metrics d' = pre_save (metrics ?d)" by blast
  with sv have "map_option metrics (campaigns (snd (snd (save campaign_1 ?d demo_start))) campaign_1)
      = Some (pre_save sample_metrics)" by simp
  with pre_save_ratios [of sample_metrics] pre_save_ratios [of zero_metrics]
  show ?thesis by (simp add: sample_metrics_def zero_metrics_def)
qed

text \<open>
  Claim C9, as stated, fails: with \<open>totalImpressions = 0\<close> and a stored \<open>ctr\<close> of 5
  (left from earlier counters), the hook leaves \<open>ctr\<close> at 5, not 0.
\<close>

theorem pre_save_stale_ctr_counterexample:
  "totalImpressions stale_metrics = 0 \<and> ctr (pre_save stale_metrics) = 5"
  by (simp add: pre_save_def stale_metrics_def)

subsection \<open>Facts about validation and saving\<close>

lemma strip_end_prefix: "xs = rev (dropWhile P (rev xs)) @ rev (takeWhile P (rev xs))"
proof -
  have "rev (takeWhile P (rev xs) @ dropWhile P (rev xs)) = xs"
    by (simp only: takeWhile_dropWhile_id rev_rev_ident)
  then show ?thesis by (simp only: rev_append)
qed

lemma dropWhile_strip_end:
  assumes "xs = [] \<or> \<not> P (hd xs)"
  shows "dropWhile P (rev (dropWhile P (rev xs))) = rev (dropWhile P (rev xs))"
proof (cases "rev (dropWhile P (rev xs))")
  case Nil
  then show ?thesis by (simp only: dropWhile.simps)
next
  case (Cons a as)
  with strip_end_prefix [of xs P] have "xs = (a # as) @ rev (takeWhile P (rev xs))" by simp
  then have "hd xs = a" and "xs \<noteq> []"
    by (metis append_Cons list.sel(1), metis Nil_is_append_conv list.distinct(1))
  with assms have "\<not> P a" by auto
  with Cons show ?thesis by simp
qed

lemma trim_idem: "trim (trim s) = trim s"
proof -
  let ?t = "dropWhile is_space s"
  have h: "?t = [] \<or> \<not> is_space (hd ?t)" using hd_dropWhile [of is_space s] by blast
  have "dropWhile is_space (rev (dropWhile is_space (rev ?t))) = rev (dropWhile is_space (rev ?t))"
    using h by (rule dropWhile_strip_end)
  then show ?thesis by (simp add: trim_def)
qed

lemma valid_content_cast: "valid_content (cast_content x) = valid_content x"
  by (cases "subjectLine x") (simp_all add: valid_content_def cast_content_def trim_idem list_all_iff)

lemma pre_save_idem: "pre_save (pre_save m) = pre_save m"
  by (auto simp: pre_save_def Let_def)

lemma promise_all_map_Inr: "promise_all (map Inr xs) = Inr xs"
  by (induction xs) auto

lemma promise_all_Inl: "Inl e \<in> set ps \<Longrightarrow> \<exists>e'. promise_all ps = Inl e'"
  by (induction ps) (auto split: sum.splits)


lemma valid_campaign_push:
  "valid_campaign (d\<lparr>content := content d @ [cast_content x]\<rparr>) = (valid_campaign d \<and> valid_content x)"
  by (auto simp: valid_campaign_def valid_content_cast)

lemma addContent_valid:
  assumes "valid_campaign d" and "valid_content x"
  shows "addContent cid d x w =
     (None, d\<lparr>content := content d @ [cast_content x], metrics := pre_save (metrics d)\<rparr>,
      w\<lparr>campaigns := (campaigns w)(cid \<mapsto>
           d\<lparr>content := content d @ [cast_content x], metrics := pre_save (metrics d)\<rparr>)\<rparr>)"
  using assms valid_campaign_push [of d x]
  by (simp add: addContent_def save_def Let_def)

lemma addContent_invalid:
  assumes "\<not> (valid_campaign d \<and> valid_content x)"
  shows "addContent cid d x w = (Some ValidationError, d\<lparr>content := content d @ [cast_content x]\<rparr>, w)"
  using assms valid_campaign_push [of d x]
  by (simp add: addContent_def save_def Let_def)

lemma valid_campaign_saved:
  "valid_campaign d \<Longrightarrow> valid_content x \<Longrightarrow>
     valid_campaign (d\<lparr>content := content d @ [cast_content x], metrics := m\<rparr>)"
  using valid_campaign_push [of d x] by (simp add: valid_campaign_def)

lemma add_all_valid_doc:
  assumes "valid_campaign d"
  shows "\<exists>d' w'. add_all cid d xs w =
            (if list_all valid_content xs then None else Some ValidationError, d', w')
         \<and> trace w' = trace w \<and> personas w' = personas w
         \<and> campaigns w' =
             (if takeWhile valid_content xs = [] then campaigns w
              else (campaigns w)(cid \<mapsto>
                     d\<lparr>content := content d @ map cast_content (takeWhile valid_content xs),
                       metrics := pre_save (metrics d)\<rparr>))"
  using assms
proof (induction xs arbitrary: d w)
  case Nil
  then show ?case by simp
next
  case (Cons x xs)
  show ?case
  proof (cases "valid_content x")
    case False
    with Cons.prems show ?thesis by (simp add: addContent_invalid)
  next
    case True
    let ?d1 = "d\<lparr>content := content d @ [cast_content x], metrics := pre_save (metrics d)\<rparr>"
    let ?w1 = "w\<lparr>campaigns := (campaigns w)(cid \<mapsto> ?d1)\<rparr>"
    have a: "addContent cid d x w = (None, ?d1, ?w1)"
      using Cons.prems True by (rule addContent_valid)
    have v: "valid_campaign ?d1" using Cons.prems True by (rule valid_campaign_saved)
    from Cons.IH [OF v, of ?w1] obtain d' w' where
      r: "add_all cid ?d1 xs ?w1 = (if list_all valid_content xs then None else Some ValidationError, d', w')"
      and t: "trace w' = trace ?w1" "personas w' = personas ?w1"
      and c: "campaigns w' =
             (if takeWhile valid_content xs = [] then campaigns ?w1
              else (campaigns ?w1)(cid \<mapsto>
                     ?d1\<lparr>content := content ?d1 @ map cast_content (takeWhile valid_content xs),
                       metrics := pre_save (metrics ?d1)\<rparr>))"
      by blast
    have "add_all cid d (x # xs) w =
        (if list_all valid_content (x # xs) then None else Some ValidationError, d', w')"
      using a r True by simp
    moreover have "trace w' = trace w \<and> personas w' = personas w" using t by simp
    moreover have "campaigns w' =
        (campaigns w)(cid \<mapsto>
           d\<lparr>content := content d @ map cast_content (takeWhile valid_content (x # xs)),
             metrics := pre_save (metrics d)\<rparr>)"
      using c True by (simp add: pre_save_idem)
    ultimately show ?thesis using True by auto
  qed
qed

lemma add_all_invalid_doc:
  "\<not> valid_campaign d \<Longrightarrow> xs \<noteq> [] \<Longrightarrow> \<exists>d'. add_all cid d xs w = (Some ValidationError, d', w)"
  by (cases xs) (simp_all add: addContent_invalid)

lemma length_concat_singletons:
  "(\<And>i. length (f i) = 1) \<Longrightarrow> length (concat (map f [0..<n])) = n"
  by (induction n) simp_all

lemma variation_promises_length:
  "ct \<in> {''email'', ''social_post'', ''ad_copy''} \<Longrightarrow> length (variation_promises ai p c ct n) = n"
  unfolding variation_promises_def
  by (rule length_concat_singletons) (auto simp: variation_promise_def)

lemma variation_promise_in:
  "r \<in> set (variation_promises ai p c ct n) \<Longrightarrow> \<exists>i. r \<in> set (variation_promise ai p c ct i)"
  by (auto simp: variation_promises_def)

lemma variation_document_valid:
  assumes "valid_campaign c" and "Inr x \<in> set (variation_promises ai p (variation_document body ct c) ct n)"
    and "valid_content x"
  shows "valid_campaign (variation_document body ct c)"
proof (cases "ct = ''social_post''")
  case False
  with assms(1) show ?thesis by (simp add: variation_document_def Let_def)
next
  case True
  from assms(2) obtain i where
    "Inr x \<in> set (variation_promise ai p (variation_document body ct c) ct i)"
    using variation_promise_in by blast
  with True have "platform x = Some (case r_platform body of None \<Rightarrow> ''linkedin''
                       | Some q \<Rightarrow> if q = [] then ''linkedin'' else q)"
    by (auto simp: variation_promise_def variation_document_def Let_def
        aiService_generateSocialContent_def split: option.splits if_splits)
  with assms(3) have "(case r_platform body of None \<Rightarrow> ''linkedin''
                       | Some q \<Rightarrow> if q = [] then ''linkedin'' else q) \<in> set platform_enum"
    by (simp add: valid_content_def)
  with assms(1) True show ?thesis
    by (auto simp: variation_document_def Let_def valid_campaign_def valid_generationSettings_def
        split: option.splits)
qed


subsection \<open>Content generation\<close>

text \<open>
  Claim C6. With the capability unconfigured, each of the five generation controllers
  answers 503 and returns the world as it received it: no lookup is in the trace, no
  generation was requested and the collections are untouched.
\<close>

theorem unavailable_fails_fast:
  assumes "\<not> isAvailable env"
  shows "generateEmailContent env uid body w = (Response 503 False NoData, w)
       \<and> generateSocialContent env uid body w = (Response 503 False NoData, w)
       \<and> generateAdCopy env uid body w = (Response 503 False NoData, w)
       \<and> generateContentVariations env uid body w = (Response 503 False NoData, w)
       \<and> batchGenerateContent env uid body w = (Response 503 False NoData, w)"
  using assms
  by (simp add: generateEmailContent_def generateSocialContent_def generateAdCopy_def
      generateContentVariations_def batchGenerateContent_def Let_def)

theorem unavailable_fails_fast_witness:
  "\<not> isAvailable no_key
   \<and> generateSocialContent no_key alice (demo_request\<lparr>r_platform := Some ''linkedin''\<rparr>) demo_start
      = (Response 503 False NoData, demo_start)"
proof -
  have h: "\<not> isAvailable no_key" by (simp add: isAvailable_def no_key_def)
  from unavailable_fails_fast [OF h] h show ?thesis by blast
qed

lemma google_ads_invalid: "platform x = Some ''google-ads'' \<Longrightarrow> \<not> valid_content (cast_content x)"
  by (simp add: valid_content_def cast_content_def platform_enum_def)

lemma addContent_google_ads:
  "platform x = Some ''google-ads'' \<Longrightarrow>
     addContent cid d x w = (Some ValidationError, d\<lparr>content := content d @ [cast_content x]\<rparr>, w)"
  using google_ads_invalid [of x]
  by (simp add: addContent_def save_def valid_campaign_def)

lemma generateAdCopy_platform:
  "aiService_generateAdCopy sc p c None = Inr x \<Longrightarrow> platform x = Some ''google-ads''"
  by (auto simp: aiService_generateAdCopy_def split: option.splits)

lemma load_and_authorize_campaigns:
  "load_and_authorize uid body w = (r, w1) \<Longrightarrow> campaigns w1 = campaigns w"
  by (auto simp: load_and_authorize_def logged_def Let_def
      split: option.splits sum.splits bool.splits if_splits)

lemma load_and_authorize_status:
  "load_and_authorize uid body w = (Inl r, w1) \<Longrightarrow> status_code r \<in> {404, 403, 500}"
  by (auto simp: load_and_authorize_def logged_def Let_def
      split: option.splits sum.splits bool.splits if_splits)

text \<open>
  Claim C10. Ad copy generated without a platform carries platform \<open>google-ads\<close>, which
  is outside the platform enumeration of the content schema, so the item is invalid and
  \<open>addContent\<close> throws the validation error. The ad-copy controller called without a
  platform therefore never answers 200 and never changes the campaign collection; the
  ad-copy leg of a batch appends nothing, adds nothing to the generated items and records
  one entry in the error list.
\<close>

theorem ad_copy_default_platform_rejected:
  "(\<forall>x. aiService_generateAdCopy sc p c None = Inr x \<longrightarrow>
        platform x = Some ''google-ads'' \<and> ''google-ads'' \<notin> set platform_enum
        \<and> \<not> valid_content x \<and> fst (addContent cid d x w) = Some ValidationError)
   \<and> (r_platform body = None \<longrightarrow>
        status_code (fst (generateAdCopy env uid body w)) \<in> {503, 404, 403, 500}
        \<and> campaigns (snd (generateAdCopy env uid body w)) = campaigns w)
   \<and> campaigns (bw (batch_step ai cid p pfs ''ad_copy'' st)) = campaigns (bw st)
   \<and> generatedContent (batch_step ai cid p pfs ''ad_copy'' st) = generatedContent st
   \<and> length (errors (batch_step ai cid p pfs ''ad_copy'' st)) = Suc (length (errors st))"
proof -
  have a: "\<forall>x. aiService_generateAdCopy sc p c None = Inr x \<longrightarrow>
        platform x = Some ''google-ads'' \<and> ''google-ads'' \<notin> set platform_enum
        \<and> \<not> valid_content x \<and> fst (addContent cid d x w) = Some ValidationError"
  proof (intro allI impI)
    fix x assume "aiService_generateAdCopy sc p c None = Inr x"
    then have g: "platform x = Some ''google-ads''" by (rule generateAdCopy_platform)
    then show "platform x = Some ''google-ads'' \<and> ''google-ads'' \<notin> set platform_enum
        \<and> \<not> valid_content x \<and> fst (addContent cid d x w) = Some ValidationError"
      by (simp add: addContent_google_ads valid_content_def platform_enum_def)
  qed
  have b: "r_platform body = None \<longrightarrow>
        status_code (fst (generateAdCopy env uid body w)) \<in> {503, 404, 403, 500}
        \<and> campaigns (snd (generateAdCopy env uid body w)) = campaigns w"
  proof
    assume np: "r_platform body = None"
    show "status_code (fst (generateAdCopy env uid body w)) \<in> {503, 404, 403, 500}
        \<and> campaigns (snd (generateAdCopy env uid body w)) = campaigns w"
    proof (cases "isAvailable env")
      case False
      then show ?thesis by (simp add: generateAdCopy_def Let_def)
    next
      case True
      obtain r w1 where l: "load_and_authorize uid body w = (r, w1)"
        by (cases "load_and_authorize uid body w")
      have cw: "campaigns w1 = campaigns w" using l by (rule load_and_authorize_campaigns)
      show ?thesis
      proof (cases r)
        case (Inl resp)
        with l have "load_and_authorize uid body w = (Inl resp, w1)" by simp
        then have "status_code resp \<in> {404, 403, 500}" by (rule load_and_authorize_status)
        with True l Inl cw show ?thesis by (auto simp: generateAdCopy_def Let_def)
      next
        case (Inr cp)
        obtain c0 p0 where cp: "cp = (c0, p0)" by (cases cp)
        let ?c1 = "merge_customInstructions (customInstructions body) c0"
        let ?w2 = "logged [Generate ''ad_copy'' (Some ''google-ads'')] w1"
        have res: "generateAdCopy env uid body w =
            persist_generated (campaignId body) ?c1
              (aiService_generateAdCopy (openai env 0) p0 ?c1 (Some ''google-ads'')) ?w2"
          using True l Inr cp np by (simp add: generateAdCopy_def Let_def)
        have cw2: "campaigns ?w2 = campaigns w" using cw by (simp add: logged_def)
        show ?thesis
        proof (cases "aiService_generateAdCopy (openai env 0) p0 ?c1 (Some ''google-ads'')")
          case (Inl e)
          with res cw2 show ?thesis by (simp add: persist_generated_def)
        next
          case (Inr x)
          then have "platform x = Some ''google-ads''"
            by (auto simp: aiService_generateAdCopy_def split: option.splits)
          from addContent_google_ads [OF this] res Inr cw2 show ?thesis
            by (simp add: persist_generated_def)
        qed
      qed
    qed
  qed
  have c: "campaigns (bw (batch_step ai cid p pfs ''ad_copy'' st)) = campaigns (bw st)
   \<and> generatedContent (batch_step ai cid p pfs ''ad_copy'' st) = generatedContent st
   \<and> length (errors (batch_step ai cid p pfs ''ad_copy'' st)) = Suc (length (errors st))"
  proof (cases "aiService_generateAdCopy (ai (calls st)) p (doc st) None")
    case (Inl e)
    then show ?thesis
      by (simp add: batch_step_def generate_and_add_def Let_def logged_def)
  next
    case (Inr x)
    then have "platform x = Some ''google-ads''" by (rule generateAdCopy_platform)
    from addContent_google_ads [OF this] Inr show ?thesis
      by (simp add: batch_step_def generate_and_add_def Let_def logged_def)
  qed
  from a b c show ?thesis by blast
qed

theorem ad_copy_default_platform_rejected_witness:
  "aiService_generateAdCopy (script [] ''Buy now'' ''80'') owned_persona
       (demo_campaign alice ''draft'' []) None
     = Inr (item ''ad_copy'' ''google-ads'' None ''Buy now'' [])
   \<and> \<not> valid_content (item ''ad_copy'' ''google-ads'' None ''Buy now'' [])
   \<and> r_platform demo_request = None
   \<and> status_code (fst (generateAdCopy (demo_env (\<lambda>i. script [] ''Buy now'' ''80'')) alice
        demo_request demo_start)) \<in> {503, 404, 403, 500}
   \<and> campaigns (snd (generateAdCopy (demo_env (\<lambda>i. script [] ''Buy now'' ''80'')) alice
        demo_request demo_start)) = campaigns demo_start"
proof -
  have g: "aiService_generateAdCopy (script [] ''Buy now'' ''80'') owned_persona
       (demo_campaign alice ''draft'' []) None
     = Inr (item ''ad_copy'' ''google-ads'' None ''Buy now'' [])" by code_simp
  have np: "r_platform demo_request = None" by (simp add: demo_request_def)
  from ad_copy_default_platform_rejected
    [of "script [] ''Buy now'' ''80''" owned_persona "demo_campaign alice ''draft'' []"
        "campaign_1" "demo_campaign alice ''draft'' []" demo_start demo_request
        "demo_env (\<lambda>i. script [] ''Buy now'' ''80'')" "alice"]
    g np show ?thesis by blast
qed




subsection \<open>Updates through the route\<close>

text \<open>
  A body that \<^verbatim>\<open>validateCampaign\<close> admits carries an \<^verbatim>\<open>endDate\<close>, and the update validator
  of \<^verbatim>\<open>endDate\<close> compares it with \<^verbatim>\<open>this.startDate\<close>, which is undefined on a query: the
  update is refused. So every request to the route is answered with an error status and
  the collection is left as it was.
\<close>

lemma admitted_not_updatable:
  "validateCampaign now b \<Longrightarrow> \<not> update_validators (b\<lparr>u_name := map_option trim (u_name b)\<rparr>)"
  by (auto simp: validateCampaign_def update_validators_def endDate_validator_def
      split: option.splits date_text.splits)

lemma updateCampaign_refused:
  assumes "\<not> update_validators body"
  shows "status_code (fst (updateCampaign uid cid body w)) \<in> {404, 403, 500}
       \<and> campaigns (snd (updateCampaign uid cid body w)) = campaigns w"
  using assms
  by (auto simp: updateCampaign_def findByIdAndUpdate_def logged_def Let_def
      split: option.splits sum.splits bool.splits)

lemma put_campaign_rejected:
  "status_code (fst (put_campaign now uid cid body w)) \<in> {400, 404, 403, 500}
   \<and> campaigns (snd (put_campaign now uid cid body w)) = campaigns w"
proof (cases "isMongoId cid \<and> validateCampaign now body")
  case False
  then show ?thesis by (auto simp: put_campaign_def)
next
  case True
  then have "validateCampaign now body" by simp
  then have "\<not> update_validators (body\<lparr>u_name := map_option trim (u_name body)\<rparr>)"
    by (rule admitted_not_updatable)
  from updateCampaign_refused [OF this, of uid cid w] True show ?thesis
    by (auto simp: put_campaign_def)
qed

subsection \<open>Status of a campaign through every operation\<close>

text \<open>
  \<open>tracks cid d w\<close>: the document \<open>d\<close> in memory and the stored campaign \<open>cid\<close> have the
  same status. Saves of a document that tracks the stored campaign keep the status of
  every stored campaign.
\<close>

lemma statuses_logged: "statuses (logged es w) = statuses w"
  by (rule ext) (simp add: statuses_def logged_def)

lemma tracks_logged: "tracks cid d (logged es w) = tracks cid d w"
  by (simp add: tracks_def logged_def)

lemma save_tracks:
  assumes "tracks cid d w" and "save cid d w = (r, d', w')"
  shows "statuses w' = statuses w \<and> status d' = status d \<and> tracks cid d' w'"
proof (cases "valid_campaign d")
  case False
  with assms show ?thesis by (auto simp: save_def)
next
  case True
  with assms(2) have d': "d' = d\<lparr>metrics := pre_save (metrics d)\<rparr>"
    and w': "w' = w\<lparr>campaigns := (campaigns w)(cid \<mapsto> d')\<rparr>"
    by (auto simp: save_def Let_def)
  from assms(1) obtain c where c: "campaigns w cid = Some c" "status c = status d"
    by (auto simp: tracks_def)
  have "statuses w' = statuses w"
    by (rule ext) (use c d' w' in \<open>simp add: statuses_def\<close>)
  with d' w' show ?thesis by (simp add: tracks_def)
qed

lemma addContent_tracks:
  assumes "tracks cid d w" and "addContent cid d x w = (r, d', w')"
  shows "statuses w' = statuses w \<and> status d' = status d \<and> tracks cid d' w'"
proof -
  have "tracks cid (d\<lparr>content := content d @ [cast_content x]\<rparr>) w"
    using assms(1) by (simp add: tracks_def)
  from save_tracks [OF this] assms(2) show ?thesis by (simp add: addContent_def)
qed

lemma add_all_tracks:
  "tracks cid d w \<Longrightarrow> add_all cid d xs w = (r, d', w') \<Longrightarrow> statuses w' = statuses w"
proof (induction xs arbitrary: d w)
  case Nil
  then show ?case by simp
next
  case (Cons x xs)
  obtain r1 d1 w1 where a: "addContent cid d x w = (r1, d1, w1)"
    by (cases "addContent cid d x w")
  from addContent_tracks [OF Cons.prems(1) a]
  have s1: "statuses w1 = statuses w" and t1: "tracks cid d1 w1" by simp_all
  show ?case
  proof (cases r1)
    case None
    with a Cons.prems(2) have "add_all cid d1 xs w1 = (r, d', w')" by simp
    from Cons.IH [OF t1 this] s1 show ?thesis by simp
  next
    case (Some e)
    with a Cons.prems(2) s1 show ?thesis by simp
  qed
qed

lemma generate_and_add_tracks:
  assumes "tracks cid (doc st) (bw st)" and "generate_and_add cid ct pf gen st = (r, st')"
  shows "statuses (bw st') = statuses (bw st) \<and> tracks cid (doc st') (bw st')"
proof (cases "gen (doc st)")
  case (Inl e)
  with assms show ?thesis
    by (auto simp: generate_and_add_def Let_def statuses_logged tracks_logged)
next
  case (Inr x)
  let ?w1 = "logged [Generate ct pf] (bw st)"
  obtain r1 d1 w1 where a: "addContent cid (doc st) x ?w1 = (r1, d1, w1)"
    by (cases "addContent cid (doc st) x ?w1")
  have "tracks cid (doc st) ?w1" using assms(1) by (simp add: tracks_logged)
  from addContent_tracks [OF this a]
  have "statuses w1 = statuses (bw st)" and "tracks cid d1 w1"
    by (simp_all add: statuses_logged)
  with assms(2) Inr a show ?thesis
    by (cases r1) (auto simp: generate_and_add_def Let_def)
qed

lemma social_loop_tracks:
  "tracks cid (doc st) (bw st) \<Longrightarrow> social_loop ai cid p ps st = (r, st') \<Longrightarrow>
     statuses (bw st') = statuses (bw st) \<and> tracks cid (doc st') (bw st')"
proof (induction ps arbitrary: st)
  case Nil
  then show ?case by simp
next
  case (Cons q ps)
  obtain r1 st1 where g: "generate_and_add cid ''social_post'' (Some q)
      (\<lambda>d. aiService_generateSocialContent (ai (calls st)) p d (Some q)) st = (r1, st1)"
    by (cases "generate_and_add cid ''social_post'' (Some q)
      (\<lambda>d. aiService_generateSocialContent (ai (calls st)) p d (Some q)) st")
  from generate_and_add_tracks [OF Cons.prems(1) g]
  have s1: "statuses (bw st1) = statuses (bw st)" and t1: "tracks cid (doc st1) (bw st1)"
    by simp_all
  show ?case
  proof (cases r1)
    case None
    with g Cons.prems(2) have "social_loop ai cid p ps st1 = (r, st')" by simp
    from Cons.IH [OF t1 this] s1 show ?thesis by simp
  next
    case (Some e)
    with g Cons.prems(2) s1 t1 show ?thesis by auto
  qed
qed

lemma batch_step_tracks:
  assumes "tracks cid (doc st) (bw st)"
  shows "statuses (bw (batch_step ai cid p pfs ct st)) = statuses (bw st)
       \<and> tracks cid (doc (batch_step ai cid p pfs ct st)) (bw (batch_step ai cid p pfs ct st))"
proof -
  let ?leg = "(if ct = ''email''
            then generate_and_add cid ''email'' (Some ''email'')
                   (\<lambda>d. aiService_generateEmailContent (ai (calls st)) p d) st
            else if ct = ''social_post''
            then social_loop ai cid p (filter (\<lambda>q. q \<noteq> ''email'') pfs) st
            else if ct = ''ad_copy''
            then generate_and_add cid ''ad_copy'' None
                   (\<lambda>d. aiService_generateAdCopy (ai (calls st)) p d None) st
            else (None, st))"
  obtain r st' where l: "?leg = (r, st')" by (cases ?leg)
  have "statuses (bw st') = statuses (bw st) \<and> tracks cid (doc st') (bw st')"
    using l assms generate_and_add_tracks [OF assms] social_loop_tracks [OF assms]
    by (auto split: if_splits)
  moreover have "batch_step ai cid p pfs ct st =
      (case r of None \<Rightarrow> st' | Some e \<Rightarrow> st'\<lparr>errors := errors st' @ [(ct, e)]\<rparr>)"
    using l by (simp add: batch_step_def split: option.splits)
  ultimately show ?thesis by (cases r) (simp_all add: tracks_def)
qed

lemma batch_loop_tracks:
  "tracks cid (doc st) (bw st) \<Longrightarrow>
     statuses (bw (batch_loop ai cid p pfs cts st)) = statuses (bw st)"
proof (induction cts arbitrary: st)
  case Nil
  then show ?case by simp
next
  case (Cons ct cts)
  from batch_step_tracks [OF Cons.prems, of ai p pfs ct]
  have s: "statuses (bw (batch_step ai cid p pfs ct st)) = statuses (bw st)"
    and t: "tracks cid (doc (batch_step ai cid p pfs ct st)) (bw (batch_step ai cid p pfs ct st))"
    by simp_all
  from Cons.IH [OF t] s show ?case by simp
qed

lemma load_and_authorize_Inr:
  "load_and_authorize uid body w = (Inr (c, p), w1) \<Longrightarrow>
     campaigns w (campaignId body) = Some c \<and> w1 = logged [FindCampaign (campaignId body), FindPersona (r_personaId body)] w"
  by (auto simp: load_and_authorize_def Let_def split: option.splits sum.splits bool.splits if_splits)

lemma load_and_authorize_Inl:
  "load_and_authorize uid body w = (Inl r, w1) \<Longrightarrow> statuses w1 = statuses w"
  by (auto simp: load_and_authorize_def Let_def statuses_logged
      split: option.splits sum.splits bool.splits if_splits)

lemma tracks_loaded:
  "campaigns w cid = Some c \<Longrightarrow> status d = status c \<Longrightarrow> tracks cid d (logged es w)"
  by (simp add: tracks_def logged_def)

lemma merge_status: "status (merge_customInstructions ci c) = status c"
  by (simp add: merge_customInstructions_def split: option.splits)

lemma variation_document_status: "status (variation_document body ct c) = status c"
  by (simp add: variation_document_def Let_def)

lemma persist_generated_statuses:
  "tracks cid d w \<Longrightarrow> statuses (snd (persist_generated cid d g w)) = statuses w"
proof (cases g)
  case (Inl e)
  then show ?thesis by (simp add: persist_generated_def)
next
  case (Inr x)
  assume t: "tracks cid d w"
  obtain r d' w' where a: "addContent cid d x w = (r, d', w')" by (cases "addContent cid d x w")
  from addContent_tracks [OF t a] a Inr show ?thesis
    by (cases r) (simp_all add: persist_generated_def)
qed

lemma single_generation_statuses:
  "statuses (snd (generateEmailContent env uid body w)) = statuses w"
  "statuses (snd (generateSocialContent env uid body w)) = statuses w"
  "statuses (snd (generateAdCopy env uid body w)) = statuses w"
proof -
  obtain r w1 where l: "load_and_authorize uid body w = (r, w1)"
    by (cases "load_and_authorize uid body w")
  have k: "statuses (snd (persist_generated (campaignId body)
              (merge_customInstructions (customInstructions body) c) g (logged es w1))) = statuses w"
    if "r = Inr (c, p)" for c p g es
  proof -
    from that l load_and_authorize_Inr [of uid body w c p w1]
    have c: "campaigns w (campaignId body) = Some c"
      and w1: "w1 = logged [FindCampaign (campaignId body), FindPersona (r_personaId body)] w"
      by simp_all
    have "tracks (campaignId body) (merge_customInstructions (customInstructions body) c) (logged es w1)"
      unfolding w1 tracks_logged using c by (simp add: tracks_def merge_status)
    from persist_generated_statuses [OF this] w1 show ?thesis by (simp add: statuses_logged)
  qed
  have e: "statuses w1 = statuses w" if "r = Inl resp" for resp
    using that l load_and_authorize_Inl by blast
  show "statuses (snd (generateEmailContent env uid body w)) = statuses w"
    using l k e by (cases r) (auto simp: generateEmailContent_def Let_def)
  show "statuses (snd (generateSocialContent env uid body w)) = statuses w"
    using l k e by (cases r) (auto simp: generateSocialContent_def Let_def)
  show "statuses (snd (generateAdCopy env uid body w)) = statuses w"
    using l k e by (cases r) (auto simp: generateAdCopy_def Let_def)
qed

lemma variations_statuses:
  "statuses (snd (generateContentVariations env uid body w)) = statuses w"
proof -
  obtain r w1 where l: "load_and_authorize uid body w = (r, w1)"
    by (cases "load_and_authorize uid body w")
  show ?thesis
  proof (cases r)
    case (Inl resp)
    with l have "statuses w1 = statuses w" using load_and_authorize_Inl by blast
    with l Inl show ?thesis
      by (auto simp: generateContentVariations_def Let_def split: option.splits)
  next
    case (Inr cp)
    obtain c p where cp: "cp = (c, p)" by (cases cp)
    from l Inr cp load_and_authorize_Inr [of uid body w c p w1]
    have c: "campaigns w (campaignId body) = Some c"
      and w1: "w1 = logged [FindCampaign (campaignId body), FindPersona (r_personaId body)] w"
      by simp_all
    have t: "tracks (campaignId body) (variation_document body ct c) (logged es w1)" for ct es
      unfolding w1 tracks_logged using c by (simp add: tracks_def variation_document_status)
    have k: "statuses (snd (case add_all (campaignId body) (variation_document body ct c) xs (logged es w1) of
                   (Some e, d, w3) \<Rightarrow> (Response 500 False NoData, w3)
                 | (None, d, w3) \<Rightarrow> (Response 200 True (VariationsData xs), w3))) = statuses w"
      for ct xs es
    proof -
      obtain r2 d2 w2 where a: "add_all (campaignId body) (variation_document body ct c) xs (logged es w1)
          = (r2, d2, w2)"
        by (cases "add_all (campaignId body) (variation_document body ct c) xs (logged es w1)")
      from add_all_tracks [OF t a] have "statuses w2 = statuses w"
        by (simp add: statuses_logged w1)
      with a show ?thesis by (cases r2) simp_all
    qed
    have s1: "statuses (logged es w1) = statuses w" for es by (simp add: statuses_logged w1)
    show ?thesis
      using l Inr cp k s1
      by (auto simp: generateContentVariations_def Let_def split: option.splits sum.splits)
  qed
qed

lemma batch_statuses:
  "statuses (snd (batchGenerateContent env uid body w)) = statuses w"
proof -
  obtain r w1 where l: "load_and_authorize uid body w = (r, w1)"
    by (cases "load_and_authorize uid body w")
  show ?thesis
  proof (cases r)
    case (Inl resp)
    with l have "statuses w1 = statuses w" using load_and_authorize_Inl by blast
    with l Inl show ?thesis by (auto simp: batchGenerateContent_def Let_def)
  next
    case (Inr cp)
    obtain c p where cp: "cp = (c, p)" by (cases cp)
    from l Inr cp load_and_authorize_Inr [of uid body w c p w1]
    have c: "campaigns w (campaignId body) = Some c"
      and w1: "w1 = logged [FindCampaign (campaignId body), FindPersona (r_personaId body)] w"
      by simp_all
    let ?st0 = "\<lparr>doc = merge_customInstructions (customInstructions body) c, bw = w1,
                  generatedContent = [], errors = [], calls = 0\<rparr>"
    have "tracks (campaignId body) (doc ?st0) (bw ?st0)"
      using c by (simp add: w1 tracks_def logged_def merge_status)
    from batch_loop_tracks [OF this]
    have "statuses (bw (batch_loop ai (campaignId body) p pfs cts ?st0)) = statuses w" for ai pfs cts
      by (simp add: w1 statuses_logged)
    with l Inr cp show ?thesis by (auto simp: batchGenerateContent_def Let_def)
  qed
qed

lemma addContentToCampaign_statuses:
  "statuses (snd (addContentToCampaign uid cid body w)) = statuses w"
proof (cases "campaigns w cid")
  case None
  then show ?thesis by (simp add: addContentToCampaign_def Let_def statuses_logged)
next
  case (Some c)
  let ?w1 = "logged [FindCampaign cid] w"
  obtain r d' w' where a: "addContent cid c body ?w1 = (r, d', w')"
    by (cases "addContent cid c body ?w1")
  have "tracks cid c ?w1" using Some by (simp add: tracks_def logged_def)
  from addContent_tracks [OF this a] have "statuses w' = statuses w" by (simp add: statuses_logged)
  with Some a show ?thesis
    by (cases r) (auto simp: addContentToCampaign_def Let_def statuses_logged
        split: sum.splits bool.splits)
qed

lemma archiveCampaign_statuses:
  "statuses (snd (archiveCampaign uid cid w)) = statuses w
   \<or> statuses (snd (archiveCampaign uid cid w)) = (statuses w)(cid \<mapsto> ''archived'')"
proof (cases "campaigns w cid")
  case None
  then show ?thesis by (simp add: archiveCampaign_def Let_def statuses_logged)
next
  case (Some c)
  let ?w1 = "logged [FindCampaign cid] w"
  let ?d = "c\<lparr>isArchived := True, status := ''archived''\<rparr>"
  have "snd (snd (save cid ?d ?w1)) = ?w1
      \<or> statuses (snd (snd (save cid ?d ?w1))) = (statuses w)(cid \<mapsto> ''archived'')"
    by (auto simp: save_def Let_def statuses_def logged_def fun_eq_iff)
  then show ?thesis
    using Some
    by (auto simp: archiveCampaign_def archive_def Let_def statuses_logged
        split: sum.splits bool.splits prod.splits option.splits)
qed

lemma deleteCampaign_statuses:
  "statuses (snd (deleteCampaign uid cid w)) = statuses w
   \<or> statuses (snd (deleteCampaign uid cid w)) = (statuses w)(cid := None)"
  by (auto simp: deleteCampaign_def Let_def statuses_def logged_def fun_eq_iff split: option.splits)

lemma createCampaign_statuses:
  "statuses (snd (createCampaign new_id uid body w)) = statuses w
   \<or> statuses (snd (createCampaign new_id uid body w)) = (statuses w)(new_id \<mapsto> ''draft'')"
  by (auto simp: createCampaign_def save_def Let_def statuses_def logged_def fun_eq_iff
      split: option.splits)

lemma put_campaign_statuses:
  "statuses (snd (put_campaign now uid cid body w)) = statuses w"
  using put_campaign_rejected [of now uid cid body w] by (simp add: statuses_def fun_eq_iff)

text \<open>
  Claim C2. Over every operation that writes a campaign (create, update, delete, archive,
  add content and the five generation operations): the status of a stored campaign changes
  only along an edge of the specification, and the one change that occurs is the
  archiving of that campaign, to \<open>archived\<close>. Every update request, whatever status it
  asks for, is answered 400, 404, 403 or 500 and leaves the collection unchanged:
  the route admits only bodies with an \<^verbatim>\<open>endDate\<close>, and the update validator of
  \<^verbatim>\<open>endDate\<close> refuses each of them.
\<close>

theorem status_changes_follow_edges:
  assumes fresh: "campaigns w (srv_new_id srv) = None"
    and before: "campaigns w k = Some c"
    and after: "campaigns (snd (handle srv uid r w)) k = Some c'"
  shows "(status c' \<noteq> status c \<longrightarrow> spec_edge (status c) (status c'))
       \<and> (status c' \<noteq> status c \<longrightarrow> r = Archive_Campaign k \<and> status c' = ''archived'')
       \<and> (\<forall>cid body. r = Update_Campaign cid body \<longrightarrow>
             status_code (fst (handle srv uid r w)) \<in> {400, 404, 403, 500}
             \<and> campaigns (snd (handle srv uid r w)) = campaigns w)"
proof -
  have s: "statuses w k = Some (status c)" using before by (simp add: statuses_def)
  have s': "statuses (snd (handle srv uid r w)) k = Some (status c')"
    using after by (simp add: statuses_def)
  have only: "status c' \<noteq> status c \<longrightarrow> r = Archive_Campaign k \<and> status c' = ''archived''"
  proof (cases r)
    case (Create_Campaign body)
    from createCampaign_statuses [of "srv_new_id srv" uid body w] s s' fresh before
    show ?thesis unfolding Create_Campaign by (auto split: if_splits)
  next
    case (Update_Campaign cid body)
    with put_campaign_statuses [of "srv_now srv" uid cid body w] s s' show ?thesis by simp
  next
    case (Delete_Campaign cid)
    from deleteCampaign_statuses [of uid cid w] s s'
    show ?thesis unfolding Delete_Campaign by (auto split: if_splits)
  next
    case (Archive_Campaign cid)
    from archiveCampaign_statuses [of uid cid w] s s'
    show ?thesis unfolding Archive_Campaign by (auto split: if_splits)
  next
    case (Add_Content cid body)
    with addContentToCampaign_statuses [of uid cid body w] s s' show ?thesis by simp
  next
    case (Generate_Email body)
    with single_generation_statuses(1) [of "srv_ai srv" uid body w] s s' show ?thesis by simp
  next
    case (Generate_Social body)
    with single_generation_statuses(2) [of "srv_ai srv" uid body w] s s' show ?thesis by simp
  next
    case (Generate_AdCopy body)
    with single_generation_statuses(3) [of "srv_ai srv" uid body w] s s' show ?thesis by simp
  next
    case (Generate_Variations body)
    with variations_statuses [of "srv_ai srv" uid body w] s s' show ?thesis by simp
  next
    case (Batch_Generate body)
    with batch_statuses [of "srv_ai srv" uid body w] s s' show ?thesis by simp
  qed
  moreover have "status c' \<noteq> status c \<longrightarrow> spec_edge (status c) (status c')"
    using only by (simp add: spec_edge_def)
  moreover have "\<forall>cid body. r = Update_Campaign cid body \<longrightarrow>
             status_code (fst (handle srv uid r w)) \<in> {400, 404, 403, 500}
             \<and> campaigns (snd (handle srv uid r w)) = campaigns w"
    using put_campaign_rejected by simp
  ultimately show ?thesis by blast
qed

text \<open>
  Archiving the draft campaign moves it along the edge to \<open>archived\<close>; an admitted
  update asking for \<open>completed\<close>, which is no edge from \<open>draft\<close>, is rejected and
  nothing is stored.
\<close>

theorem status_changes_follow_edges_witness:
  "map_option status (campaigns (snd (handle demo_server alice (Archive_Campaign campaign_1) demo_start))
       campaign_1) = Some ''archived''
   \<and> spec_edge ''draft'' ''archived''
   \<and> isMongoId campaign_1 \<and> validateCampaign 0 (admitted_body ''Q4 Launch'' (Some ''completed''))
   \<and> \<not> spec_edge ''draft'' ''completed''
   \<and> status_code (fst (handle demo_server alice
        (Update_Campaign campaign_1 (admitted_body ''Q4 Launch'' (Some ''completed''))) demo_start))
      \<in> {400, 404, 403, 500}
   \<and> campaigns (snd (handle demo_server alice
        (Update_Campaign campaign_1 (admitted_body ''Q4 Launch'' (Some ''completed''))) demo_start))
      = campaigns demo_start"
proof -
  let ?c = "demo_campaign alice ''draft'' []"
  let ?c' = "?c\<lparr>isArchived := True, status := ''archived'', metrics := pre_save zero_metrics\<rparr>"
  let ?put = "Update_Campaign campaign_1 (admitted_body ''Q4 Launch'' (Some ''completed''))"
  have fresh: "campaigns demo_start (srv_new_id demo_server) = None"
    by (simp add: demo_start_def demo_world_def demo_server_def)
  have before: "campaigns demo_start campaign_1 = Some ?c"
    by (simp add: demo_start_def demo_world_def)
  have v: "valid_campaign (?c\<lparr>isArchived := True, status := ''archived''\<rparr>)" by code_simp
  have e: "canBeEditedBy ?c alice = Inr True" by code_simp
  have after: "campaigns (snd (handle demo_server alice (Archive_Campaign campaign_1) demo_start)) campaign_1
      = Some ?c'"
    using v e
    by (simp add: archiveCampaign_def archive_def save_def Let_def logged_def demo_start_def
        demo_world_def demo_campaign_def)
  have st: "status ?c' = ''archived''" "status ?c = ''draft''" by (simp_all add: demo_campaign_def)
  from status_changes_follow_edges [OF fresh before after] st
  have a: "spec_edge ''draft'' ''archived''" by simp
  have adm: "isMongoId campaign_1" "validateCampaign 0 (admitted_body ''Q4 Launch'' (Some ''completed''))"
    "\<not> spec_edge ''draft'' ''completed''"
    by code_simp+
  have after2: "campaigns (snd (handle demo_server alice ?put demo_start)) campaign_1 = Some ?c"
    by code_simp
  from status_changes_follow_edges [OF fresh before after2]
  have b: "status_code (fst (handle demo_server alice ?put demo_start)) \<in> {400, 404, 403, 500}
      \<and> campaigns (snd (handle demo_server alice ?put demo_start)) = campaigns demo_start"
    by blast
  from after st a adm b show ?thesis by simp
qed




subsection \<open>Generation requests of a batch\<close>






lemma batch_step_errors_trace:
  "trace (bw (st\<lparr>errors := es\<rparr>)) = trace (bw st)"
  by simp













subsection \<open>Variations\<close>

text \<open>
  Claim C7, as the code has it, for the content types \<open>email\<close> and \<open>social_post\<close>. For
  \<open>n\<close> between 2 and 5, an editable campaign that satisfies its schema and a readable
  persona: the \<open>n\<close> sub-generations are all requested; if any of them fails the answer is
  500 and the campaign collection is unchanged; if all succeed with items \<open>xs\<close>, the items
  are appended one at a time, in order, up to the first item that fails schema validation.
  So the content stored afterwards is the old content followed by the longest valid prefix
  of \<open>xs\<close>: all \<open>n\<close> items (answer 200) when every item is valid, otherwise fewer, with
  answer 500.
\<close>

theorem variations_valid_prefix:
  assumes av: "isAvailable env"
    and ct: "r_contentType body = Some ct" "ct \<in> {''email'', ''social_post''}"
    and n: "n = (case variations body of None \<Rightarrow> 2 | Some v \<Rightarrow> v)" "2 \<le> n" "n \<le> 5"
    and found: "campaigns w (campaignId body) = Some c" "personas w (r_personaId body) = Some p"
    and auth: "canBeEditedBy c uid = Inr True" "\<not> content_persona_denied p uid"
    and valid: "valid_campaign c"
    and ps: "ps = variation_promises (openai env) p (variation_document body ct c) ct n"
    and res: "res = generateContentVariations env uid body w"
  shows "length ps = n
       \<and> ((\<exists>e. Inl e \<in> set ps) \<longrightarrow>
             fst res = Response 500 False NoData \<and> campaigns (snd res) = campaigns w)
       \<and> (\<forall>xs. ps = map Inr xs \<longrightarrow>
             map_option content (campaigns (snd res) (campaignId body)) =
               Some (content c @ map cast_content (takeWhile valid_content xs))
             \<and> (list_all valid_content xs \<longrightarrow> fst res = Response 200 True (VariationsData xs))
             \<and> (\<not> list_all valid_content xs \<longrightarrow> fst res = Response 500 False NoData))"
proof -
  let ?c1 = "variation_document body ct c"
  let ?w1 = "logged [FindCampaign (campaignId body), FindPersona (r_personaId body)] w"
  let ?w2 = "logged (replicate n (Generate ct None)) ?w1"
  have la: "load_and_authorize uid body w = (Inr (c, p), ?w1)"
    using found auth by (simp add: load_and_authorize_def Let_def)
  have unf: "res = (case aiService_generateContentVariations (openai env) p ?c1 ct n of
                 Inl e \<Rightarrow> (Response 500 False NoData, ?w2)
               | Inr contentVariations \<Rightarrow>
                   (case add_all (campaignId body) ?c1 contentVariations ?w2 of
                      (Some e, d, w3) \<Rightarrow> (Response 500 False NoData, w3)
                    | (None, d, w3) \<Rightarrow> (Response 200 True (VariationsData contentVariations), w3)))"
    using av ct n la res by (auto simp: generateContentVariations_def Let_def)
  have cw2: "campaigns ?w2 = campaigns w" by (simp add: logged_def)
  have ct3: "ct \<in> {''email'', ''social_post'', ''ad_copy''}" using ct(2) by blast
  have len: "length ps = n" using ps ct3 by (simp add: variation_promises_length)
  have fail: "(\<exists>e. Inl e \<in> set ps) \<longrightarrow>
             fst res = Response 500 False NoData \<and> campaigns (snd res) = campaigns w"
  proof
    assume "\<exists>e. Inl e \<in> set ps"
    then obtain e' where "promise_all ps = Inl e'" using promise_all_Inl by blast
    with ps have "aiService_generateContentVariations (openai env) p ?c1 ct n
        = Inl (Error ''Failed to generate content variations'')"
      by (simp add: aiService_generateContentVariations_def)
    with unf cw2 show "fst res = Response 500 False NoData \<and> campaigns (snd res) = campaigns w"
      by simp
  qed
  have ok: "\<forall>xs. ps = map Inr xs \<longrightarrow>
             map_option content (campaigns (snd res) (campaignId body)) =
               Some (content c @ map cast_content (takeWhile valid_content xs))
             \<and> (list_all valid_content xs \<longrightarrow> fst res = Response 200 True (VariationsData xs))
             \<and> (\<not> list_all valid_content xs \<longrightarrow> fst res = Response 500 False NoData)"
  proof (intro allI impI)
    fix xs assume xs: "ps = map Inr xs"
    with len n(2) have ne: "xs \<noteq> []" by auto
    from xs ps have gen: "aiService_generateContentVariations (openai env) p ?c1 ct n = Inr xs"
      by (simp add: aiService_generateContentVariations_def promise_all_map_Inr)
    have cc: "content ?c1 = content c" by (simp add: variation_document_def Let_def)
    show "map_option content (campaigns (snd res) (campaignId body)) =
               Some (content c @ map cast_content (takeWhile valid_content xs))
             \<and> (list_all valid_content xs \<longrightarrow> fst res = Response 200 True (VariationsData xs))
             \<and> (\<not> list_all valid_content xs \<longrightarrow> fst res = Response 500 False NoData)"
    proof (cases "valid_campaign ?c1")
      case True
      from add_all_valid_doc [OF True, of "campaignId body" xs ?w2] obtain d' w' where
        r: "add_all (campaignId body) ?c1 xs ?w2 =
              (if list_all valid_content xs then None else Some ValidationError, d', w')"
        and c: "campaigns w' =
             (if takeWhile valid_content xs = [] then campaigns ?w2
              else (campaigns ?w2)(campaignId body \<mapsto>
                     ?c1\<lparr>content := content ?c1 @ map cast_content (takeWhile valid_content xs),
                       metrics := pre_save (metrics ?c1)\<rparr>))"
        by blast
      have sw: "snd res = w'" using unf gen r by simp
      have "map_option content (campaigns w' (campaignId body)) =
               Some (content c @ map cast_content (takeWhile valid_content xs))"
        using c cw2 found(1) cc by simp
      with sw unf gen r show ?thesis by simp
    next
      case False
      have inv: "\<forall>x \<in> set xs. \<not> valid_content x"
      proof
        fix x assume "x \<in> set xs"
        with xs ps have "Inr x \<in> set (variation_promises (openai env) p ?c1 ct n)" by auto
        with valid False show "\<not> valid_content x" using variation_document_valid by blast
      qed
      with ne have tw: "takeWhile valid_content xs = []" and nl: "\<not> list_all valid_content xs"
        by (cases xs, simp, simp)+
      from add_all_invalid_doc [OF False ne] obtain d' where
        "add_all (campaignId body) ?c1 xs ?w2 = (Some ValidationError, d', ?w2)" by blast
      with unf gen have "res = (Response 500 False NoData, ?w2)" by simp
      with tw nl cw2 found(1) show ?thesis by simp
    qed
  qed
  from len fail ok show ?thesis by blast
qed

text \<open>
  Two email variations that are both valid are both stored; when the second
  sub-generation fails nothing is stored.
\<close>

theorem variations_valid_prefix_witness:
  "fst (generateContentVariations (demo_env (\<lambda>i. script ''Hello'' ''Dear reader'' ''80'')) alice
        (demo_request\<lparr>r_contentType := Some ''email''\<rparr>) demo_start)
     = Response 200 True (VariationsData
         [item ''email'' ''email'' (Some ''Hello'') ''Dear reader'' [],
          item ''email'' ''email'' (Some ''Hello'') ''Dear reader'' []])
   \<and> map_option content (campaigns (snd (generateContentVariations
        (demo_env (\<lambda>i. script ''Hello'' ''Dear reader'' ''80'')) alice
        (demo_request\<lparr>r_contentType := Some ''email''\<rparr>) demo_start)) campaign_1)
     = Some [item ''email'' ''email'' (Some ''Hello'') ''Dear reader'' [],
             item ''email'' ''email'' (Some ''Hello'') ''Dear reader'' []]
   \<and> fst (generateContentVariations (demo_env (replies_except 1)) alice
        (demo_request\<lparr>r_contentType := Some ''email''\<rparr>) demo_start)
     = Response 500 False NoData
   \<and> campaigns (snd (generateContentVariations (demo_env (replies_except 1)) alice
        (demo_request\<lparr>r_contentType := Some ''email''\<rparr>) demo_start))
     = campaigns demo_start"
proof -
  let ?env = "demo_env (\<lambda>i. script ''Hello'' ''Dear reader'' ''80'')"
  let ?env2 = "demo_env (replies_except 1)"
  let ?body = "demo_request\<lparr>r_contentType := Some ''email''\<rparr>"
  let ?c = "demo_campaign alice ''draft'' []"
  let ?e = "item ''email'' ''email'' (Some ''Hello'') ''Dear reader'' []"
  have av: "isAvailable ?env" and av2: "isAvailable ?env2" by code_simp+
  have ct: "r_contentType ?body = Some ''email''" "''email'' \<in> {''email'', ''social_post''}"
    by simp_all
  have n: "(2::nat) = (case variations ?body of None \<Rightarrow> 2 | Some v \<Rightarrow> v)" "(2::nat) \<le> 2" "(2::nat) \<le> 5"
    by (simp_all add: demo_request_def)
  have found: "campaigns demo_start (campaignId ?body) = Some ?c"
      "personas demo_start (r_personaId ?body) = Some owned_persona"
    by (simp_all add: demo_start_def demo_world_def demo_request_def)
  have auth: "canBeEditedBy ?c alice = Inr True" "\<not> content_persona_denied owned_persona alice"
    by code_simp+
  have valid: "valid_campaign ?c" by code_simp
  have ps: "variation_promises (openai ?env) owned_persona (variation_document ?body ''email'' ?c) ''email'' 2
      = map Inr [?e, ?e]" by code_simp
  have va: "list_all valid_content [?e, ?e]" by code_simp
  have tw: "content ?c @ map cast_content (takeWhile valid_content [?e, ?e]) = [?e, ?e]" by code_simp
  have "\<forall>xs. variation_promises (openai ?env) owned_persona
            (variation_document ?body ''email'' ?c) ''email'' 2 = map Inr xs \<longrightarrow>
          map_option content (campaigns (snd (generateContentVariations ?env alice ?body demo_start))
              (campaignId ?body)) = Some (content ?c @ map cast_content (takeWhile valid_content xs))
          \<and> (list_all valid_content xs \<longrightarrow>
               fst (generateContentVariations ?env alice ?body demo_start)
                 = Response 200 True (VariationsData xs))
          \<and> (\<not> list_all valid_content xs \<longrightarrow>
               fst (generateContentVariations ?env alice ?body demo_start)
                 = Response 500 False NoData)"
    using variations_valid_prefix [OF av ct n found auth valid refl refl] by blast
  from this [rule_format, OF ps] va tw
  have ok: "fst (generateContentVariations ?env alice ?body demo_start)
       = Response 200 True (VariationsData [?e, ?e])
     \<and> map_option content (campaigns (snd (generateContentVariations ?env alice ?body demo_start))
         campaign_1) = Some [?e, ?e]"
    by (simp add: demo_request_def)
  have rej: "Inl (Error ''Failed to generate email content'')
      \<in> set (variation_promises (openai ?env2) owned_persona
               (variation_document ?body ''email'' ?c) ''email'' 2)" by code_simp
  have "(\<exists>e. Inl e \<in> set (variation_promises (openai ?env2) owned_persona
               (variation_document ?body ''email'' ?c) ''email'' 2)) \<longrightarrow>
          fst (generateContentVariations ?env2 alice ?body demo_start) = Response 500 False NoData
          \<and> campaigns (snd (generateContentVariations ?env2 alice ?body demo_start))
              = campaigns demo_start"
    using variations_valid_prefix [OF av2 ct n found auth valid refl refl] by blast
  with rej have "fst (generateContentVariations ?env2 alice ?body demo_start) = Response 500 False NoData
          \<and> campaigns (snd (generateContentVariations ?env2 alice ?body demo_start))
              = campaigns demo_start" by blast
  with ok show ?thesis by blast
qed

text \<open>
  Claim C7, as stated, fails: all three sub-generations succeed, the second item has a
  subject of 201 characters, which the schema refuses, and one item of the three is
  stored.
\<close>

theorem variations_partial_append_counterexample:
  "variation_promises (openai (demo_env (\<lambda>i. script (if i = 1 then replicate 201 (CHR ''A'') else ''Hello'')
         ''Dear reader'' ''80''))) owned_persona
      (variation_document (demo_request\<lparr>r_contentType := Some ''email'', variations := Some 3\<rparr>) ''email''
         (demo_campaign alice ''draft'' [])) ''email'' 3
     = [Inr (item ''email'' ''email'' (Some ''Hello'') ''Dear reader'' []),
        Inr (item ''email'' ''email'' (Some (replicate 201 (CHR ''A''))) ''Dear reader'' []),
        Inr (item ''email'' ''email'' (Some ''Hello'') ''Dear reader'' [])]
   \<and> fst (generateContentVariations
        (demo_env (\<lambda>i. script (if i = 1 then replicate 201 (CHR ''A'') else ''Hello'')
           ''Dear reader'' ''80'')) alice
        (demo_request\<lparr>r_contentType := Some ''email'', variations := Some 3\<rparr>) demo_start)
     = Response 500 False NoData
   \<and> map_option content (campaigns (snd (generateContentVariations
        (demo_env (\<lambda>i. script (if i = 1 then replicate 201 (CHR ''A'') else ''Hello'')
           ''Dear reader'' ''80'')) alice
        (demo_request\<lparr>r_contentType := Some ''email'', variations := Some 3\<rparr>) demo_start)) campaign_1)
     = Some [item ''email'' ''email'' (Some ''Hello'') ''Dear reader'' []]"
  by code_simp

end
